theory Spec2Isabelle
  imports Main "HOL-Library.Sublist"
begin

section \<open>JavaScript strings\<close>

text \<open>
  The sources are TypeScript run as JavaScript. Strings are modelled as \<open>string\<close>
  (ASCII); the whitespace class \<open>\s\<close> of the regular expressions and of \<open>trim\<close> is
  modelled by its ASCII members.
\<close>

abbreviation nl :: char where
  "nl \<equiv> CHR 0x0A"

definition is_space :: "char \<Rightarrow> bool" where
  "is_space c \<longleftrightarrow> c = CHR '' '' \<or> c = CHR 0x09 \<or> c = CHR 0x0A \<or> c = CHR 0x0B
     \<or> c = CHR 0x0C \<or> c = CHR 0x0D"

definition is_digit :: "char \<Rightarrow> bool" where
  "is_digit c \<longleftrightarrow> c \<in> set ''0123456789''"

text \<open>\<open>s.trim()\<close>\<close>

definition trim :: "string \<Rightarrow> string" where
  "trim s = rev (dropWhile is_space (rev (dropWhile is_space s)))"

text \<open>\<open>s.split(c)\<close> for a one-character separator: never the empty list.\<close>

fun split_on :: "char \<Rightarrow> string \<Rightarrow> string list" where
  "split_on c [] = [[]]"
| "split_on c (x # xs) =
     (if x = c then [] # split_on c xs
      else (case split_on c xs of [] \<Rightarrow> [[x]] | y # ys \<Rightarrow> (x # y) # ys))"

text \<open>\<open>xs.join(sep)\<close> on an array of strings.\<close>

fun join :: "string \<Rightarrow> string list \<Rightarrow> string" where
  "join sep [] = []"
| "join sep [x] = x"
| "join sep (x # y # ys) = x @ sep @ join sep (y # ys)"

definition starts_with :: "string \<Rightarrow> string \<Rightarrow> bool" where
  "starts_with s p \<longleftrightarrow> take (length p) s = p"

definition ends_with :: "string \<Rightarrow> string \<Rightarrow> bool" where
  "ends_with s p \<longleftrightarrow> length p \<le> length s \<and> drop (length s - length p) s = p"

text \<open>\<open>s.replace(p, r)\<close> with a string pattern: the first occurrence only.\<close>

fun replace_first :: "string \<Rightarrow> string \<Rightarrow> string \<Rightarrow> string" where
  "replace_first p r [] = (if p = [] then r else [])"
| "replace_first p r (c # cs) =
     (if take (length p) (c # cs) = p then r @ drop (length p) (c # cs)
      else c # replace_first p r cs)"

text \<open>\<open>s.replace(/c/g, d)\<close> for single characters.\<close>

definition replace_char :: "char \<Rightarrow> char \<Rightarrow> string \<Rightarrow> string" where
  "replace_char a b s = map (\<lambda>c. if c = a then b else c) s"

text \<open>Decimal digits of a natural number, as \<open>String(n)\<close> prints an integer.\<close>

definition digit_char :: "nat \<Rightarrow> char" where
  "digit_char d = ''0123456789'' ! (d mod 10)"

function show_nat :: "nat \<Rightarrow> string" where
  "show_nat n = (if n < 10 then [digit_char n] else show_nat (n div 10) @ [digit_char n])"
  by pat_completeness auto
termination
  by (relation "measure id") auto

declare show_nat.simps [simp del]

definition digit_val :: "char \<Rightarrow> nat" where
  "digit_val c = of_char c - 48"

definition nat_of_digits :: "string \<Rightarrow> nat" where
  "nat_of_digits s = foldl (\<lambda>n c. 10 * n + digit_val c) 0 s"

section \<open>JavaScript numbers\<close>

text \<open>
  A JavaScript number is a double. Where the sources compute with numbers that are not
  small integers, or print them, the rounding to a double and the shortest decimal text
  of a double are computed here, on integers.
\<close>

text \<open>The decimal digits of a non-negative integer.\<close>

function digits_of :: "int \<Rightarrow> string" where
  "digits_of i = (if i < 10 then [digit_char (nat i)]
                  else digits_of (i div 10) @ [digit_char (nat (i mod 10))])"
  by pat_completeness auto
termination
  by (relation "measure nat") auto

declare digits_of.simps [simp del]

text \<open>The number of binary digits of a positive integer.\<close>

function bit_length :: "int \<Rightarrow> int" where
  "bit_length i = (if i \<le> 0 then 0 else 1 + bit_length (i div 2))"
  by pat_completeness auto
termination
  by (relation "measure nat") auto

declare bit_length.simps [simp del]

text \<open>\<open>a / b\<close> rounded to the nearest integer, a tie to the even one (\<open>0 \<le> a\<close>, \<open>0 < b\<close>).\<close>

definition round_div :: "int \<Rightarrow> int \<Rightarrow> int" where
  "round_div a b =
     (let q = a div b; r = a mod b
      in if 2 * r > b \<or> (2 * r = b \<and> q mod 2 = 1) then q + 1 else q)"

text \<open>
  The double nearest to the positive rational \<open>p / q\<close>, a tie to the even mantissa, as
  its 53-bit mantissa \<open>m\<close> and its exponent \<open>e\<close>: the value is \<open>m * 2^e\<close>.
  \<open>scaled p q e\<close> is \<open>p / (q * 2^e)\<close> as a fraction of integers. The numbers rounded
  here are far from the subnormal range; overflow is left to the caller.
\<close>

definition scaled :: "int \<Rightarrow> int \<Rightarrow> int \<Rightarrow> int \<times> int" where
  "scaled p q e = (if e \<le> 0 then (p * 2 ^ nat (- e), q) else (p, q * 2 ^ nat e))"

definition to_double :: "int \<Rightarrow> int \<Rightarrow> int \<times> int" where
  "to_double p q =
     (let e0 = bit_length p - bit_length q - 53;
          e1 = (case scaled p q e0 of (a, b) \<Rightarrow> if a div b \<ge> 2 ^ 53 then e0 + 1 else e0);
          m = (case scaled p q e1 of (a, b) \<Rightarrow> round_div a b)
      in if m = 2 ^ 53 then (2 ^ 52, e1 + 1) else (m, e1))"

text \<open>
  The decimal exponent \<open>n\<close> of a positive rational \<open>p / q\<close>: the one with
  \<open>10^(n-1) <= p / q < 10^n\<close>. \<open>zeros_up p q j\<close> is the least \<open>i\<close> from \<open>j\<close> on with
  \<open>q <= p * 10^i\<close>.
\<close>

function zeros_up :: "int \<Rightarrow> int \<Rightarrow> nat \<Rightarrow> nat" where
  "zeros_up p q j = (if p \<le> 0 \<or> q \<le> p * 10 ^ j then j else zeros_up p q (Suc j))"
  by pat_completeness auto
termination
proof (relation "measure (\<lambda>(p, q, j). nat (q - p * 10 ^ j))", goal_cases)
  case 1
  show ?case by simp
next
  case (2 p q j)
  then have positive: "0 < p" and below: "p * 10 ^ j < q" by simp_all
  from positive have "0 < p * 10 ^ j" by simp
  with below show ?case by simp
qed

declare zeros_up.simps [simp del]

definition dec_exp :: "int \<Rightarrow> int \<Rightarrow> int" where
  "dec_exp p q =
     (if q \<le> p then int (length (digits_of (p div q))) else 1 - int (zeros_up p q 1))"

text \<open>
  \<open>Number::toString\<close>: the digits \<open>s\<close> and the exponent \<open>n\<close> of a double \<open>d\<close>, with as
  few digits \<open>k\<close> as a decimal \<open>s * 10^(n-k)\<close> needs to round to \<open>d\<close>, and of the
  decimals of that length the one nearest to \<open>d\<close>. \<open>candidate p q d n k\<close> is that \<open>s\<close>
  for \<open>k\<close> digits, if there is one, where \<open>p / q\<close> is the value of \<open>d\<close>. Seventeen
  digits suffice for every double; the last case of \<open>shortest\<close> is for a pair that is
  not a double.
\<close>

definition pow10 :: "int \<Rightarrow> int" where
  "pow10 d = 10 ^ nat d"

definition candidate :: "int \<Rightarrow> int \<Rightarrow> int \<times> int \<Rightarrow> int \<Rightarrow> int \<Rightarrow> int option" where
  "candidate p q d n k =
     (let num = (if n \<le> k then p * pow10 (k - n) else p);
          den = (if n \<le> k then q else q * pow10 (n - k));
          lo = num div den;
          hi = lo + 1;
          fits = (\<lambda>s. 0 < s \<and> (if n \<le> k then to_double s (pow10 (k - n))
                                   else to_double (s * pow10 (n - k)) 1) = d);
          dist = (\<lambda>s. abs (s * den - num))
      in if fits lo \<and> fits hi
         then (if dist lo < dist hi \<or> (dist lo = dist hi \<and> lo mod 2 = 0) then Some lo
               else Some hi)
         else if fits lo then Some lo
         else if fits hi then Some hi
         else None)"

fun first_fit :: "(int \<Rightarrow> int option) \<Rightarrow> int list \<Rightarrow> (int \<times> int) option" where
  "first_fit f [] = None"
| "first_fit f (k # ks) = (case f k of Some s \<Rightarrow> Some (s, k) | None \<Rightarrow> first_fit f ks)"

definition shortest :: "int \<times> int \<Rightarrow> string \<times> int" where
  "shortest d =
     (case d of (m, e) \<Rightarrow>
        (let p = (if 0 \<le> e then m * 2 ^ nat e else m);
             q = (if 0 \<le> e then 1 else 2 ^ nat (- e));
             n = dec_exp p q
         in case first_fit (candidate p q d n) [1, 2, 3, 4, 5, 6, 7, 8, 9, 10, 11, 12, 13, 14, 15, 16, 17] of
              Some (s, k) \<Rightarrow> if s = pow10 k then (''1'', n + 1) else (digits_of s, n)
            | None \<Rightarrow> (digits_of (p * pow10 (17 - n) div q), n)))"

text \<open>
  The text of a positive number with the digits \<open>ds\<close> and the decimal exponent \<open>n\<close>:
  plain digits below \<open>10^21\<close>, \<open>0.000ddd\<close> down to \<open>10^-6\<close>, the exponent form
  \<open>d.ddde+x\<close> otherwise.
\<close>

definition number_text :: "string \<times> int \<Rightarrow> string" where
  "number_text sn =
     (case sn of (ds, n) \<Rightarrow>
        (let k = int (length ds)
         in if k \<le> n \<and> n \<le> 21 then ds @ replicate (nat (n - k)) (CHR ''0'')
            else if 0 < n \<and> n \<le> 21 then take (nat n) ds @ ''.'' @ drop (nat n) ds
            else if - 6 < n \<and> n \<le> 0 then ''0.'' @ replicate (nat (- n)) (CHR ''0'') @ ds
            else (if k = 1 then ds else take 1 ds @ ''.'' @ drop 1 ds)
                 @ ''e'' @ (if 0 \<le> n - 1 then ''+'' else ''-'') @ digits_of (abs (n - 1))))"

section \<open>The generic tree: \<open>ConfigValue\<close> of \<open>nginx-config-parser.ts\<close>\<close>

text \<open>
  \<open>type ConfigValue = string | object | Array<string | object>\<close>. A JavaScript value of
  the tree is a string, an object (its own properties, in enumeration order) or an array.
  \<open>JUndefined\<close> is the result of reading a missing property, \<open>JNum\<close> the \<open>length\<close> of
  an array. The type has no \<open>null\<close>, as the declared tree type has none.

  An object literal and an array also answer to the names they inherit from
  \<open>Object.prototype\<close> and \<open>Array.prototype\<close>; the values of those names are built-in
  functions, and \<open>JFunction f\<close> is the built-in function whose \<open>name\<close> is \<open>f\<close>. An
  array of the model has its elements and its \<open>length\<close> and no other own property.
\<close>

datatype jv =
    JUndefined
  | JStr string
  | JNum nat
  | JFunction string
  | JObj "(string \<times> jv) list"
  | JArr "jv list"

datatype error =
    TypeError
  | ArrayPropertyStore
  | IncludeResolutionError
  | FileNotFound

text \<open>\<open>typeof v === 'object'\<close>\<close>

fun is_object :: "jv \<Rightarrow> bool" where
  "is_object (JObj _) = True"
| "is_object (JArr _) = True"
| "is_object _ = False"

text \<open>
  A property name is an array index when it is the decimal form, without a leading zero,
  of a natural number below \<open>2^32 - 1\<close>.
\<close>

definition array_index :: "string \<Rightarrow> nat option" where
  "array_index k =
     (if k \<noteq> [] \<and> list_all is_digit k \<and> (k = ''0'' \<or> hd k \<noteq> CHR ''0'')
         \<and> nat_of_digits k < 2 ^ 32 - 1
      then Some (nat_of_digits k) else None)"

text \<open>
  The string-named properties of \<open>Object.prototype\<close> and of \<open>Array.prototype\<close>
  (ECMAScript 2023), all of them functions. The sources run on Deno (they import from
  \<open>deno.land\<close> and call \<open>Deno.stat\<close>), and Deno deletes the accessor
  \<open>Object.prototype.__proto__\<close> when it starts: there \<open>__proto__\<close> is a name like any
  other, read as \<open>undefined\<close> until it is stored as an own property.
\<close>

definition object_prototype :: "string list" where
  "object_prototype = [''constructor'', ''__defineGetter__'', ''__defineSetter__'',
     ''hasOwnProperty'', ''__lookupGetter__'', ''__lookupSetter__'', ''isPrototypeOf'',
     ''propertyIsEnumerable'', ''toString'', ''valueOf'', ''toLocaleString'']"

definition array_prototype :: "string list" where
  "array_prototype = [''constructor'', ''at'', ''concat'', ''copyWithin'', ''fill'', ''find'',
     ''findIndex'', ''findLast'', ''findLastIndex'', ''lastIndexOf'', ''pop'', ''push'',
     ''reverse'', ''shift'', ''unshift'', ''slice'', ''sort'', ''splice'', ''includes'',
     ''indexOf'', ''join'', ''keys'', ''entries'', ''values'', ''forEach'', ''filter'', ''flat'',
     ''flatMap'', ''map'', ''every'', ''some'', ''reduce'', ''reduceRight'', ''toLocaleString'',
     ''toString'', ''toReversed'', ''toSorted'', ''toSpliced'', ''with'']"

text \<open>What an object literal, and what an array, inherits under a name.\<close>

definition inherited_object :: "string \<Rightarrow> jv" where
  "inherited_object k =
     (if k = ''constructor'' then JFunction ''Object''
      else if k \<in> set object_prototype then JFunction k
      else JUndefined)"

definition inherited_array :: "string \<Rightarrow> jv" where
  "inherited_array k =
     (if k = ''constructor'' then JFunction ''Array''
      else if k \<in> set array_prototype then JFunction k
      else inherited_object k)"

text \<open>
  \<open>v[k]\<close>: reading a property, own first, then inherited. Reading from \<open>undefined\<close>
  throws. \<open>resolve\<close> and \<open>resolveSet\<close> read a property only of a value whose \<open>typeof\<close>
  is \<open>object\<close>, so no caller reaches the last clause.
\<close>

fun js_get :: "jv \<Rightarrow> string \<Rightarrow> error + jv" where
  "js_get JUndefined k = Inl TypeError"
| "js_get (JObj kvs) k = Inr (case map_of kvs k of Some v \<Rightarrow> v | None \<Rightarrow> inherited_object k)"
| "js_get (JArr xs) k =
     Inr (case array_index k of
            Some i \<Rightarrow> if i < length xs then xs ! i else JUndefined
          | None \<Rightarrow> if k = ''length'' then JNum (length xs) else inherited_array k)"
| "js_get w k = Inr JUndefined"

text \<open>
  Own property keys enumerate array indices first, in ascending order, then the other
  names in insertion order.
\<close>

fun insert_index :: "nat \<Rightarrow> string \<Rightarrow> 'a \<Rightarrow> (string \<times> 'a) list \<Rightarrow> (string \<times> 'a) list" where
  "insert_index i k v [] = [(k, v)]"
| "insert_index i k v ((k', v') # rest) =
     (case array_index k' of
        Some j \<Rightarrow> if j < i then (k', v') # insert_index i k v rest
                  else (k, v) # (k', v') # rest
      | None \<Rightarrow> (k, v) # (k', v') # rest)"

definition obj_set :: "(string \<times> 'a) list \<Rightarrow> string \<Rightarrow> 'a \<Rightarrow> (string \<times> 'a) list" where
  "obj_set kvs k v =
     (if map_of kvs k \<noteq> None
      then map (\<lambda>(k', v'). if k' = k then (k', v) else (k', v')) kvs
      else (case array_index k of
              Some i \<Rightarrow> insert_index i k v kvs
            | None \<Rightarrow> kvs @ [(k, v)]))"

text \<open>
  \<open>v[k] = val\<close>: an object gets or updates the own property (an inherited function of
  the same name is writable, so the store creates an own property that shadows it); an
  array stores at an index, growing with holes when the index is past the end. A store
  under any other name on an array would give the array a named property (or, for
  \<open>length\<close>, resize it or throw a \<open>RangeError\<close>): the arrays of the model carry no such
  property, and the store is reported as the outcome \<open>ArrayPropertyStore\<close>, which stands
  for a run that leaves the model. A store on \<open>undefined\<close> throws, and so does a store on
  a string or a number in module (strict) code; \<open>resolveSet\<close> tests \<open>typeof\<close> before it
  stores.
\<close>

fun js_put :: "jv \<Rightarrow> string \<Rightarrow> jv \<Rightarrow> error + jv" where
  "js_put (JObj kvs) k v = Inr (JObj (obj_set kvs k v))"
| "js_put (JArr xs) k v =
     (case array_index k of
        Some i \<Rightarrow> Inr (JArr (if i < length xs then xs[i := v]
                              else xs @ replicate (i - length xs) JUndefined @ [v]))
      | None \<Rightarrow> Inl ArrayPropertyStore)"
| "js_put w k v = Inl TypeError"

text \<open>
  The mutated child object is the same object its parent refers to; in the functional
  model it is written back at the property it was read from.
\<close>

fun write_back :: "jv \<Rightarrow> string \<Rightarrow> jv \<Rightarrow> jv" where
  "write_back (JObj kvs) k v = JObj (map (\<lambda>(k', v'). if k' = k then (k', v) else (k', v')) kvs)"
| "write_back (JArr xs) k v =
     (case array_index k of
        Some i \<Rightarrow> if i < length xs then JArr (xs[i := v]) else JArr xs
      | None \<Rightarrow> JArr xs)"
| "write_back w k v = w"

subsection \<open>Key escaping\<close>

definition unsafeKey :: "string \<Rightarrow> string" where
  "unsafeKey key = replace_char (CHR ''!'') (CHR ''.'') key"

definition safeKey :: "string \<Rightarrow> string" where
  "safeKey key = replace_char (CHR ''.'') (CHR ''!'') key"

subsection \<open>Path access: \<open>resolve\<close> and \<open>resolveSet\<close>\<close>

text \<open>The callback of \<open>reduce\<close> in \<open>resolve\<close>.\<close>

definition resolve_step :: "error + jv \<Rightarrow> string \<Rightarrow> error + jv" where
  "resolve_step acc cur =
     (case acc of
        Inl e \<Rightarrow> Inl e
      | Inr prev \<Rightarrow> if is_object prev then js_get prev (unsafeKey cur) else Inr JUndefined)"

definition resolve :: "jv \<Rightarrow> string \<Rightarrow> error + jv" where
  "resolve obj path = foldl resolve_step (Inr obj) (split_on (CHR ''.'') path)"

text \<open>
  The \<open>while\<close> loop of \<open>resolveSet\<close> over the remaining components. The result is the
  returned boolean and the value of \<open>current\<close> after the call (the source mutates it in
  place).
\<close>

fun resolveSet_loop :: "jv \<Rightarrow> string list \<Rightarrow> jv \<Rightarrow> error + (bool \<times> jv)" where
  "resolveSet_loop current [] val = Inr (False, current)"
| "resolveSet_loop current (c # cs) val =
     (if \<not> is_object current then Inr (False, current)
      else if cs = [] then
        (case js_put current (unsafeKey c) val of
           Inl e \<Rightarrow> Inl e
         | Inr current' \<Rightarrow> Inr (True, current'))
      else
        (case js_get current (unsafeKey c) of
           Inl e \<Rightarrow> Inl e
         | Inr child \<Rightarrow>
             (case resolveSet_loop child cs val of
                Inl e \<Rightarrow> Inl e
              | Inr (ok, child') \<Rightarrow>
                  Inr (ok, if ok then write_back current (unsafeKey c) child' else current))))"

definition resolveSet :: "jv \<Rightarrow> string \<Rightarrow> jv \<Rightarrow> error + (bool \<times> jv)" where
  "resolveSet obj path val = resolveSet_loop obj (split_on (CHR ''.'') path) val"

subsection \<open>Which paths exist in a tree\<close>

text \<open>
  A path exists when each of its segments, unescaped, names an own property of the value
  reached so far: a key of an object, or an index of an array that is not a hole, or its
  \<open>length\<close>. A string, a number or a function is a leaf. \<open>child_at v k\<close> is what
  \<open>v[k]\<close> reads from an object or an array.
\<close>

fun has_own :: "jv \<Rightarrow> string \<Rightarrow> bool" where
  "has_own (JObj kvs) k = (k \<in> fst ` set kvs)"
| "has_own (JArr xs) k =
     (case array_index k of
        Some i \<Rightarrow> i < length xs \<and> xs ! i \<noteq> JUndefined
      | None \<Rightarrow> k = ''length'')"
| "has_own w k = False"

fun child_at :: "jv \<Rightarrow> string \<Rightarrow> jv" where
  "child_at (JObj kvs) k = (case map_of kvs k of Some v \<Rightarrow> v | None \<Rightarrow> inherited_object k)"
| "child_at (JArr xs) k =
     (case array_index k of
        Some i \<Rightarrow> if i < length xs then xs ! i else JUndefined
      | None \<Rightarrow> if k = ''length'' then JNum (length xs) else inherited_array k)"
| "child_at w k = JUndefined"

fun path_exists :: "jv \<Rightarrow> string list \<Rightarrow> bool" where
  "path_exists v [] = True"
| "path_exists v (c # cs) =
     (has_own v (unsafeKey c) \<and> path_exists (child_at v (unsafeKey c)) cs)"

text \<open>
  A name that neither an object literal nor an array inherits. The name \<open>__proto__\<close>,
  which runtimes other than Deno resolve to the prototype, is not counted as plain.
\<close>

definition plain_name :: "string \<Rightarrow> bool" where
  "plain_name k \<longleftrightarrow>
     k \<notin> set object_prototype \<and> k \<notin> set array_prototype \<and> k \<noteq> ''__proto__''"

section \<open>The tree serializer: \<open>toConf\<close>\<close>

text \<open>
  A value that is not an object, as string concatenation prints it; a built-in function
  prints as \<open>function f() { [native code] }\<close>.
\<close>

definition function_text :: "string \<Rightarrow> string" where
  "function_text f = ''function '' @ f @ ''() { [native code] }''"

fun to_text :: "jv \<Rightarrow> string" where
  "to_text (JStr s) = s"
| "to_text (JNum n) = show_nat n"
| "to_text JUndefined = ''undefined''"
| "to_text (JFunction f) = function_text f"
| "to_text w = ''[object Object]''"

text \<open>An array element as \<open>Array.prototype.join\<close> prints it.\<close>

fun join_elem :: "jv \<Rightarrow> string" where
  "join_elem (JStr s) = s"
| "join_elem (JNum n) = show_nat n"
| "join_elem JUndefined = []"
| "join_elem (JFunction f) = function_text f"
| "join_elem (JObj kvs) = ''[object Object]''"
| "join_elem (JArr xs) = join '','' (map join_elem xs)"

definition indent :: "nat \<Rightarrow> string" where
  "indent depth = replicate (4 * depth) (CHR '' '')"

definition longestKeyLen :: "string list \<Rightarrow> nat" where
  "longestKeyLen keys = foldl (\<lambda>m key. max m (length key)) 1 keys"

definition keyValIndent :: "nat \<Rightarrow> string \<Rightarrow> string" where
  "keyValIndent longest key = replicate (longest - length key + 4) (CHR '' '')"

text \<open>
  \<open>recurse obj depth\<close>, below, is the inner function of \<open>toConf\<close>; \<open>entries_text\<close> is
  its loop over \<open>Object.entries(obj)\<close> of an object, with the depth and the longest key
  length, and \<open>indexed_text\<close> the same loop over the entries of an array (keys \<open>0\<close>,
  \<open>1\<close>, ...); \<open>entry_text\<close> is the loop body and
  \<open>elems_text\<close> the \<open>val.forEach\<close> over the elements of an array value. \<open>forEach\<close> and
  \<open>Object.entries\<close> skip holes, which are the only \<open>JUndefined\<close> elements an array
  of the model can hold.
\<close>

fun entries_text :: "nat \<Rightarrow> nat \<Rightarrow> (string \<times> jv) list \<Rightarrow> string"
  and indexed_text :: "nat \<Rightarrow> nat \<Rightarrow> nat \<Rightarrow> jv list \<Rightarrow> string"
  and entry_text :: "nat \<Rightarrow> nat \<Rightarrow> string \<Rightarrow> jv \<Rightarrow> string"
  and elems_text :: "nat \<Rightarrow> string \<Rightarrow> string \<Rightarrow> jv list \<Rightarrow> string"
where
  "entries_text depth longest [] = []"
| "entries_text depth longest ((key, val) # rest) =
     entry_text depth longest key val @ entries_text depth longest rest"
| "indexed_text depth longest i [] = []"
| "indexed_text depth longest i (x # xs) =
     (if x = JUndefined then [] else entry_text depth longest (show_nat i) x)
     @ indexed_text depth longest (Suc i) xs"
| "entry_text depth longest key (JArr xs) =
     (if key = ''_lua''
      then (if xs \<noteq> [] then indent depth else [])
           @ join (nl # indent depth) (map join_elem xs) @ [nl]
      else elems_text depth (keyValIndent longest key) key xs)"
| "entry_text depth longest key (JObj kvs) =
     indent depth @ key @ '' {'' @ [nl]
     @ entries_text (depth + 1) (longestKeyLen (map fst kvs)) kvs
     @ indent depth @ ''}'' @ [nl, nl]"
| "entry_text depth longest key (JStr s) =
     indent depth @ trim (key @ keyValIndent longest key @ s) @ '';'' @ [nl]"
| "entry_text depth longest key (JNum n) =
     indent depth @ trim (key @ keyValIndent longest key @ show_nat n) @ '';'' @ [nl]"
| "entry_text depth longest key JUndefined =
     indent depth @ trim (key @ keyValIndent longest key @ ''undefined'') @ '';'' @ [nl]"
| "entry_text depth longest key (JFunction f) =
     indent depth @ trim (key @ keyValIndent longest key @ function_text f) @ '';'' @ [nl]"
| "elems_text depth spacing key [] = []"
| "elems_text depth spacing key (subVal # rest) =
     (case subVal of
        JUndefined \<Rightarrow> []
      | JObj kvs \<Rightarrow>
          indent depth
          @ trim (key @ '' '' @ '' {'' @ [nl]
                  @ entries_text (depth + 1) (longestKeyLen (map fst kvs)) kvs
                  @ indent depth @ ''}'' @ [nl, nl])
          @ [nl]
      | JArr ys \<Rightarrow>
          indent depth
          @ trim (key @ '' '' @ '' {'' @ [nl]
                  @ indexed_text (depth + 1) (longestKeyLen (map show_nat [0..<length ys])) 0 ys
                  @ indent depth @ ''}'' @ [nl, nl])
          @ [nl]
      | JStr s \<Rightarrow> indent depth @ trim (key @ spacing @ s) @ '';'' @ [nl]
      | JNum n \<Rightarrow> indent depth @ trim (key @ spacing @ show_nat n) @ '';'' @ [nl]
      | JFunction f \<Rightarrow> indent depth @ trim (key @ spacing @ function_text f) @ '';'' @ [nl])
     @ elems_text depth spacing key rest"

text \<open>
  \<open>recurse\<close> is applied to objects and arrays only: the parameter of \<open>toConf\<close> is a
  \<open>ConfigObject\<close>, and \<open>parse\<close> and \<open>writeConfigFile\<close> call it when \<open>typeof\<close> is
  \<open>object\<close>. For the other values the text is left empty.
\<close>

fun recurse :: "jv \<Rightarrow> nat \<Rightarrow> string" where
  "recurse (JObj kvs) depth = entries_text depth (longestKeyLen (map fst kvs)) kvs"
| "recurse (JArr xs) depth =
     indexed_text depth (longestKeyLen (map show_nat [0..<length xs])) 0 xs"
| "recurse w depth = []"

definition toConf :: "jv \<Rightarrow> string" where
  "toConf json = recurse json 0"

section \<open>The tree builder: \<open>toJSON\<close>\<close>

subsection \<open>Collision promotion: \<open>resolveAppendSet\<close> and \<open>appendValue\<close>\<close>

text \<open>
  The result is the returned flag \<open>isInArray\<close> and the tree after the call. The flag
  returned by \<open>resolveSet\<close> is ignored, as in the source.
\<close>

definition resolveAppendSet :: "jv \<Rightarrow> string \<Rightarrow> jv \<Rightarrow> error + (bool \<times> jv)" where
  "resolveAppendSet json key val =
     (case resolve json key of
        Inl e \<Rightarrow> Inl e
      | Inr existingVal \<Rightarrow>
          (let isInArray = (existingVal \<noteq> JUndefined);
               val' = (if existingVal \<noteq> JUndefined
                       then JArr ((case existingVal of JArr xs \<Rightarrow> xs | w \<Rightarrow> [w])
                                  @ (case val of JArr ys \<Rightarrow> ys | w \<Rightarrow> [w]))
                       else val)
           in (case resolveSet json key val' of
                 Inl e \<Rightarrow> Inl e
               | Inr (ok, json') \<Rightarrow> Inr (isInArray, json'))))"

text \<open>\<open>parent\<close> is an optional argument; \<open>if (parent)\<close> holds for a non-empty string.\<close>

definition appendValue :: "jv \<Rightarrow> string \<Rightarrow> jv \<Rightarrow> string option \<Rightarrow> error + (bool \<times> jv)" where
  "appendValue json key val parent =
     (case parent of
        Some p \<Rightarrow> if p \<noteq> [] then resolveAppendSet json (p @ ''.'' @ key) val
                  else resolveAppendSet json key val
      | None \<Rightarrow> resolveAppendSet json key val)"

subsection \<open>The three regular-expression replacements of the scanner\<close>

text \<open>
  \<open>.replace(/(\s+{)/g, '\n$1\n')\<close>: every maximal run of whitespace that is followed by
  an opening brace is put, with the brace, on a line of its own. The first argument is
  the run of whitespace read so far.
\<close>

fun brace_lines :: "string \<Rightarrow> string \<Rightarrow> string" where
  "brace_lines ws [] = ws"
| "brace_lines ws (c # cs) =
     (if is_space c then brace_lines (ws @ [c]) cs
      else if c = CHR ''{'' \<and> ws \<noteq> [] then nl # ws @ CHR ''{'' # nl # brace_lines [] cs
      else ws @ c # brace_lines [] cs)"

text \<open>
  \<open>.replace(/(;\s*)}/g, '$1\n}\n')\<close>: a semicolon, any whitespace and a closing brace.
  The first argument is the whitespace read since a semicolon, if one is pending.
\<close>

fun semi_brace_lines :: "string option \<Rightarrow> string \<Rightarrow> string" where
  "semi_brace_lines None [] = []"
| "semi_brace_lines (Some ws) [] = CHR '';'' # ws"
| "semi_brace_lines None (c # cs) =
     (if c = CHR '';'' then semi_brace_lines (Some []) cs
      else c # semi_brace_lines None cs)"
| "semi_brace_lines (Some ws) (c # cs) =
     (if is_space c then semi_brace_lines (Some (ws @ [c])) cs
      else if c = CHR ''}'' then CHR '';'' # ws @ nl # CHR ''}'' # nl # semi_brace_lines None cs
      else if c = CHR '';'' then CHR '';'' # ws @ semi_brace_lines (Some []) cs
      else CHR '';'' # ws @ c # semi_brace_lines None cs)"

text \<open>
  \<open>.replace(/;\s*?$/g, ';\n')\<close>: without the \<open>m\<close> flag \<open>$\<close> is the end of the
  string, so the only match is a semicolon followed by nothing but whitespace.
\<close>

definition semi_end :: "string \<Rightarrow> string" where
  "semi_end s =
     (case dropWhile is_space (rev s) of
        [] \<Rightarrow> s
      | c # front \<Rightarrow> if c = CHR '';'' then rev front @ [CHR '';'', nl] else s)"

subsection \<open>Parser state\<close>

record ParserOptions =
  parseIncludes :: bool
  includesRoot :: "string option"
  ignoreIncludeErrors :: bool

text \<open>
  Line 192, \<open>parent += '.' + (this.resolve(json, parent) as any[]).length - 1\<close>.
  Both operators associate to the left: the string \<open>'.' + length\<close> is built first, then
  \<open>- 1\<close> converts it to a number, so for length 2 the text appended is that of
  \<open>0.2 - 1\<close>, which is \<open>-0.8\<close>. \<open>dot_minus_one n\<close> is that text for the length
  \<open>n\<close>: the string \<open>.n\<close> is read as the nearest double, the difference with 1 is
  rounded to a double again, and the result is printed as JavaScript prints a number
  (for length 7 it is \<open>-0.30000000000000004\<close>).
\<close>

definition dot_minus_one :: "nat \<Rightarrow> string" where
  "dot_minus_one n =
     (if n = 0 then ''-1''
      else (case to_double (int n) (pow10 (int (length (digits_of (int n))))) of
              (m, e) \<Rightarrow>
                (let den = 2 ^ nat (- e); num = den - m
                 in if num = 0 then ''0''
                    else ''-'' @ number_text (shortest (to_double num den)))))"

text \<open>
  The text appended to \<open>parent\<close> after a merge. After a merge the value at the path is
  the merged array; the other cases are what JavaScript does with the \<open>length\<close> of
  another value.
\<close>

fun length_suffix :: "jv \<Rightarrow> error + string" where
  "length_suffix (JArr xs) = Inr (dot_minus_one (length xs))"
| "length_suffix (JStr s) = Inr (dot_minus_one (length s))"
| "length_suffix JUndefined = Inl TypeError"
| "length_suffix w = Inr ''NaN''"

text \<open>\<open>!isNaN(parseInt(s, 10))\<close>: leading whitespace, an optional sign, then a digit.\<close>

definition parses_as_int :: "string \<Rightarrow> bool" where
  "parses_as_int s =
     (let t = dropWhile is_space s;
          u = (case t of [] \<Rightarrow> [] | c # r \<Rightarrow> if c = CHR ''+'' \<or> c = CHR ''-'' then r else t)
      in u \<noteq> [] \<and> is_digit (hd u))"

subsection \<open>The handlers\<close>

definition handlePropertyLine :: "string \<Rightarrow> jv \<Rightarrow> string \<Rightarrow> error + (bool \<times> jv)" where
  "handlePropertyLine line json parent =
     (let parts = split_on (CHR '' '') line;
          key = safeKey (hd parts);
          val = trim (join '' '' (tl parts));
          key' = (if ends_with key '';'' then butlast key else key);
          val' = butlast val
      in appendValue json key' (JStr val') (Some parent))"

definition handleClosingBrace :: "jv \<Rightarrow> string \<Rightarrow> bool \<Rightarrow> string list \<Rightarrow> error + jv" where
  "handleClosingBrace json parent isInLua luaLines =
     (if isInLua
      then (case appendValue json ''_lua'' (JArr (map JStr luaLines)) (Some parent) of
              Inl e \<Rightarrow> Inl e
            | Inr (inArr, json') \<Rightarrow> Inr json')
      else Inr json)"

text \<open>The four statements that pop \<open>parent\<close> after a closing brace.\<close>

definition pop_parent :: "string \<Rightarrow> nat \<Rightarrow> string \<times> nat" where
  "pop_parent parent count =
     (let segs = split_on (CHR ''.'') parent
      in if count > 0 \<and> parses_as_int (last segs)
         then (join ''.'' (butlast (butlast segs)), count - 1)
         else (join ''.'' (butlast segs), count))"

text \<open>
  \<open>handleInclude\<close> is an \<open>async\<close> function and \<open>toJSON\<close> calls it without \<open>await\<close>:
  the call runs up to its first \<open>await\<close> (the \<open>for await\<close> over \<open>expandGlob\<close>), which
  is before anything touches the tree, and hands back a promise that \<open>toJSON\<close> drops.
  The state records each such call, with its arguments \<open>line\<close> and \<open>parent\<close>.
\<close>

record include_call =
  call_line :: string
  call_parent :: string

record parse_state =
  json :: jv
  parent :: string
  chunkedLine :: "string option"
  countOfParentsThatAreArrays :: nat
  isInLuaBlock :: bool
  luaBlockValue :: "string list"
  pending :: "include_call list"

text \<open>The opening-brace branch.\<close>

definition open_block :: "parse_state \<Rightarrow> string \<Rightarrow> error + parse_state" where
  "open_block st line =
     (let key = safeKey (trim (take (length line - 1) line));
          lua = (isInLuaBlock st \<or> ends_with key ''by_lua_block'');
          parent' = (if parent st \<noteq> [] then parent st @ ''.'' @ key else key)
      in (case appendValue (json st) parent' (JObj []) None of
            Inl e \<Rightarrow> Inl e
          | Inr (inArr, json') \<Rightarrow>
              if inArr then
                (case resolve json' parent' of
                   Inl e \<Rightarrow> Inl e
                 | Inr merged \<Rightarrow>
                     (case length_suffix merged of
                        Inl e \<Rightarrow> Inl e
                      | Inr indexText \<Rightarrow>
                          Inr (st\<lparr>json := json', parent := parent' @ indexText,
                                 chunkedLine := None, isInLuaBlock := lua,
                                 countOfParentsThatAreArrays :=
                                   countOfParentsThatAreArrays st + 1\<rparr>)))
              else Inr (st\<lparr>json := json', parent := parent', chunkedLine := None,
                           isInLuaBlock := lua\<rparr>)))"

text \<open>The body of \<open>innerLines.forEach\<close>.\<close>

definition inner_line :: "ParserOptions \<Rightarrow> parse_state \<Rightarrow> string \<Rightarrow> error + parse_state" where
  "inner_line options st line0 =
     (let line1 = trim line0 in
      if line1 = [] then Inr st
      else if isInLuaBlock st \<and> \<not> ends_with line1 ''}''
      then Inr (st\<lparr>luaBlockValue := luaBlockValue st @ [line1]\<rparr>)
      else
        (let line = (case chunkedLine st of
                       None \<Rightarrow> line1
                     | Some ch \<Rightarrow> if ch \<noteq> [] then ch @ '' '' @ line1 else line1)
         in if ends_with line ''{'' then open_block st line
            else if starts_with line ''include'' \<and> parseIncludes options
            then Inr (st\<lparr>pending := pending st
                         @ [\<lparr>call_line = line, call_parent = parent st\<rparr>]\<rparr>)
            else if ends_with line '';''
            then (case handlePropertyLine line (json st) (parent st) of
                    Inl e \<Rightarrow> Inl e
                  | Inr (inArr, json') \<Rightarrow> Inr (st\<lparr>json := json', chunkedLine := None\<rparr>))
            else if ends_with line ''}''
            then (case handleClosingBrace (json st) (parent st) (isInLuaBlock st)
                         (luaBlockValue st) of
                    Inl e \<Rightarrow> Inl e
                  | Inr json' \<Rightarrow>
                      (let (parent', count') =
                             pop_parent (parent st) (countOfParentsThatAreArrays st)
                       in Inr (st\<lparr>json := json', chunkedLine := None, parent := parent',
                                  countOfParentsThatAreArrays := count',
                                  isInLuaBlock := False, luaBlockValue := []\<rparr>)))
            else Inr (st\<lparr>chunkedLine := Some line\<rparr>)))"

text \<open>\<open>forEach\<close> with a body that may throw.\<close>

fun for_each :: "('s \<Rightarrow> 'a \<Rightarrow> error + 's) \<Rightarrow> 'a list \<Rightarrow> 's \<Rightarrow> error + 's" where
  "for_each f [] st = Inr st"
| "for_each f (x # xs) st = (case f st x of Inl e \<Rightarrow> Inl e | Inr st' \<Rightarrow> for_each f xs st')"

text \<open>The body of \<open>lines.forEach\<close>.\<close>

definition outer_line :: "ParserOptions \<Rightarrow> parse_state \<Rightarrow> string \<Rightarrow> error + parse_state" where
  "outer_line options st lineRaw0 =
     (let lineRaw1 = trim lineRaw0 in
      if lineRaw1 = [] \<or> starts_with lineRaw1 ''#'' then Inr st
      else
        (let lineRaw = trim (hd (split_on (CHR ''#'') lineRaw1));
             innerLines = split_on nl (semi_end (semi_brace_lines None (brace_lines [] lineRaw)))
         in for_each (inner_line options) innerLines st))"

definition initial_state :: parse_state where
  "initial_state = \<lparr>json = JObj [], parent = [], chunkedLine = None,
     countOfParentsThatAreArrays = 0, isInLuaBlock = False, luaBlockValue = [],
     pending = []\<rparr>"

definition toJSON_run :: "string \<Rightarrow> ParserOptions \<Rightarrow> error + parse_state" where
  "toJSON_run conf options =
     for_each (outer_line options) (split_on nl (replace_first [CHR 0x09] [] conf)) initial_state"

text \<open>What \<open>toJSON\<close> returns: the tree as it is when the loop over the lines ends.\<close>

definition toJSON :: "string \<Rightarrow> ParserOptions \<Rightarrow> error + jv" where
  "toJSON conf options =
     (case toJSON_run conf options of Inl e \<Rightarrow> Inl e | Inr st \<Rightarrow> Inr (json st))"

text \<open>The calls of \<open>handleInclude\<close> that \<open>toJSON\<close> started and did not wait for.\<close>

definition toJSON_pending :: "string \<Rightarrow> ParserOptions \<Rightarrow> include_call list" where
  "toJSON_pending conf options =
     (case toJSON_run conf options of Inl e \<Rightarrow> [] | Inr st \<Rightarrow> pending st)"

definition no_includes :: ParserOptions where
  "no_includes = \<lparr>parseIncludes = False, includesRoot = None, ignoreIncludeErrors = False\<rparr>"

subsection \<open>The rest of \<open>handleInclude\<close>, after its first \<open>await\<close>\<close>

text \<open>
  The file system is a parameter: \<open>expandGlob root pattern\<close> stands for the paths that
  \<open>expandGlob(resolve(root, pattern))\<close> yields, in its order, \<open>readTextFile\<close> for the
  content of a file when it exists.
\<close>

record FileSystem =
  expandGlob :: "string \<Rightarrow> string \<Rightarrow> string list"
  readTextFile :: "string \<Rightarrow> string option"
  cwd :: string

text \<open>
  \<open>readConfigFile(file)\<close> without options, as \<open>handleInclude\<close> calls it on a fresh
  parser: the options default to \<open>{ parseIncludes: true }\<close> and the promise resolves to
  what \<open>toJSON\<close> returns.
\<close>

definition default_options :: ParserOptions where
  "default_options = \<lparr>parseIncludes = True, includesRoot = None, ignoreIncludeErrors = False\<rparr>"

definition readConfigFile :: "FileSystem \<Rightarrow> string \<Rightarrow> error + jv" where
  "readConfigFile fs fileName =
     (case readTextFile fs fileName of
        None \<Rightarrow> Inl FileNotFound
      | Some configString \<Rightarrow> toJSON configString default_options)"

text \<open>\<open>this.serverRoot || options.includesRoot || Deno.cwd()\<close>\<close>

definition search_root :: "FileSystem \<Rightarrow> string option \<Rightarrow> ParserOptions \<Rightarrow> string" where
  "search_root fs serverRoot options =
     (case serverRoot of
        Some r \<Rightarrow> if r \<noteq> [] then r
                  else (case includesRoot options of
                          Some i \<Rightarrow> if i \<noteq> [] then i else cwd fs
                        | None \<Rightarrow> cwd fs)
      | None \<Rightarrow> (case includesRoot options of
                   Some i \<Rightarrow> if i \<noteq> [] then i else cwd fs
                 | None \<Rightarrow> cwd fs))"

definition include_pattern :: "string \<Rightarrow> string" where
  "include_pattern line = trim (replace_first '';'' [] (replace_first ''include '' [] line))"

text \<open>\<open>for (const [key, val] of Object.entries(config)) this.appendValue(json, key, val, parent)\<close>\<close>

fun merge_entries :: "jv \<Rightarrow> string \<Rightarrow> (string \<times> jv) list \<Rightarrow> error + jv" where
  "merge_entries tree parent_path [] = Inr tree"
| "merge_entries tree parent_path ((key, val) # rest) =
     (case appendValue tree key val (Some parent_path) of
        Inl e \<Rightarrow> Inl e
      | Inr (inArr, tree') \<Rightarrow> merge_entries tree' parent_path rest)"

fun merge_files :: "FileSystem \<Rightarrow> jv \<Rightarrow> string \<Rightarrow> string list \<Rightarrow> error + jv" where
  "merge_files fs tree parent_path [] = Inr tree"
| "merge_files fs tree parent_path (file # files) =
     (case readConfigFile fs file of
        Inl e \<Rightarrow> Inl e
      | Inr config \<Rightarrow>
          (case merge_entries tree parent_path (case config of JObj kvs \<Rightarrow> kvs | w \<Rightarrow> []) of
             Inl e \<Rightarrow> Inl e
           | Inr tree' \<Rightarrow> merge_files fs tree' parent_path files))"

text \<open>
  What the promise of one \<open>handleInclude\<close> call settles to when it runs on, given the
  tree at that time: \<open>Inl\<close> is a rejection, \<open>Inr\<close> the tree it leaves. The
  \<open>handleInclude\<close> calls that the parsers of the included files start in turn are not
  followed.
\<close>

definition handleInclude_rest ::
  "FileSystem \<Rightarrow> string option \<Rightarrow> ParserOptions \<Rightarrow> include_call \<Rightarrow> jv \<Rightarrow> error + jv" where
  "handleInclude_rest fs serverRoot options call tree =
     (let files = expandGlob fs (search_root fs serverRoot options)
                    (include_pattern (call_line call))
      in (case merge_files fs tree (call_parent call) files of
            Inl e \<Rightarrow> Inl e
          | Inr tree' \<Rightarrow>
              if files = [] \<and> \<not> ignoreIncludeErrors options
              then Inl IncludeResolutionError
              else Inr tree'))"

section \<open>The typed schema: \<open>types.ts\<close>\<close>

text \<open>
  A number of the schema is an integer, \<open>NaN\<close> (what \<open>parseInt\<close> gives for text
  without digits) or an infinity (what it gives past the largest double). The numeric
  fields of the schema are ports, counts, weights and durations in seconds; a number with
  a fractional part has no value in this type. An integer prints with all its digits
  below \<open>10^21\<close> and in the exponent form from there on. An optional field is an
  \<open>option\<close>; the fields that the interface declares as required strings but that the
  extractor can leave unset are options too, and print as \<open>undefined\<close>.
\<close>

datatype number = NaN | Num int | PosInfinity | NegInfinity

fun num_truthy :: "number \<Rightarrow> bool" where
  "num_truthy NaN = False"
| "num_truthy (Num i) = (i \<noteq> 0)"
| "num_truthy PosInfinity = True"
| "num_truthy NegInfinity = True"

definition magnitude_text :: "int \<Rightarrow> string" where
  "magnitude_text i =
     (if i < 1000000000000000000000 then digits_of i
      else number_text (shortest (to_double i 1)))"

fun show_number :: "number \<Rightarrow> string" where
  "show_number NaN = ''NaN''"
| "show_number (Num i) =
     (if i < 0 then CHR ''-'' # magnitude_text (- i) else magnitude_text i)"
| "show_number PosInfinity = ''Infinity''"
| "show_number NegInfinity = ''-Infinity''"

text \<open>Truthiness of an optional number, string and boolean.\<close>

definition truthy_num :: "number option \<Rightarrow> bool" where
  "truthy_num v = (case v of None \<Rightarrow> False | Some n \<Rightarrow> num_truthy n)"

definition truthy_str :: "string option \<Rightarrow> bool" where
  "truthy_str v = (case v of None \<Rightarrow> False | Some t \<Rightarrow> t \<noteq> [])"

definition truthy_bool :: "bool option \<Rightarrow> bool" where
  "truthy_bool v = (case v of None \<Rightarrow> False | Some b \<Rightarrow> b)"

text \<open>A value inside a template literal.\<close>

definition tpl_str :: "string option \<Rightarrow> string" where
  "tpl_str v = (case v of None \<Rightarrow> ''undefined'' | Some t \<Rightarrow> t)"

definition tpl_num :: "number option \<Rightarrow> string" where
  "tpl_num v = (case v of None \<Rightarrow> ''undefined'' | Some n \<Rightarrow> show_number n)"

record UpstreamServer =
  address :: string
  weight :: "number option"
  maxFails :: "number option"
  failTimeout :: "string option"

record CacheConfig =
  cache_enabled :: bool
  validTime :: "string option"
  cache_keys :: "string list option"
  useStale :: "string list option"
  minUses :: "number option"
  bypass :: "string list option"
  noCache :: "string list option"
  noStore :: "string list option"
  cache_methods :: "string list option"

record RateLimit =
  rate :: "string option"
  burstSize :: "number option"
  nodelay :: "bool option"

record SecurityHeaders =
  xFrameOptions :: "string option"
  xContentTypeOptions :: "bool option"
  xXSSProtection :: "bool option"
  strictTransport :: "bool option"
  referrerPolicy :: "string option"
  contentSecurityPolicy :: "string list option"

record Hsts =
  hsts_enabled :: bool
  maxAge :: "number option"
  includeSubdomains :: "bool option"
  preload :: "bool option"

record SSLConfig =
  certificate :: "string option"
  certificateKey :: "string option"
  protocols :: "string list option"
  forceRedirect :: "bool option"
  ciphers :: "string list option"
  preferServerCiphers :: "bool option"
  dhParam :: "string option"
  ocspStapling :: "bool option"
  sessionTimeout :: "string option"
  sessionTickets :: "bool option"
  hsts :: "Hsts option"

record WebSocketConfig =
  ws_enabled :: bool
  timeout :: "number option"
  keepaliveTimeout :: "number option"

record CorsConfig =
  cors_enabled :: bool
  origins :: "string list option"
  cors_methods :: "string list option"
  cors_headers :: "string list option"
  credentials :: "bool option"

record PhpConfig =
  php_enabled :: bool
  socketPath :: "string option"
  extraParams :: "(string \<times> string) list option"

record MicroserviceRoute =
  ms_path :: string
  upstream :: string
  rewrite :: "string option"
  stripPath :: "bool option"
  ms_methods :: "string list option"
  ms_cors :: "CorsConfig option"

record Location =
  loc_path :: string
  proxyPass :: "string option"
  root :: "string option"
  index :: "string option"
  try_files :: "string option"
  extraDirectives :: "string list option"
  php :: "PhpConfig option"
  websocket :: "WebSocketConfig option"
  cache :: "CacheConfig option"
  rateLimit :: "RateLimit option"
  cors :: "CorsConfig option"

record NginxConfig =
  domain :: string
  serverName :: string
  port :: number
  ssl :: "SSLConfig option"
  security :: "SecurityHeaders option"
  clientMaxBodySize :: "string option"
  upstreams :: "(string \<times> UpstreamServer list) list option"
  gzip :: "bool option"
  gzipTypes :: "string list option"
  microservices :: "MicroserviceRoute list option"
  locations :: "Location list"

text \<open>
  The \<open>config\<close> object that \<open>parseServer\<close> fills: a \<open>Record<string, unknown>\<close> in which
  every field may be missing.
\<close>

record ExtractedConfig =
  x_serverName :: "string option"
  x_domain :: "string option"
  x_port :: "number option"
  x_ssl :: "SSLConfig option"
  x_clientMaxBodySize :: "string option"
  x_gzip :: "bool option"
  x_gzipTypes :: "string list option"
  x_security :: "SecurityHeaders option"
  x_locations :: "Location list option"

section \<open>The semantic extractor: \<open>NginxParser\<close> and \<open>NginxToJSON\<close>\<close>

subsection \<open>The block parser\<close>

text \<open>
  \<open>ParsedBlock\<close>: a value is a string, an array, or a nested block (its own properties in
  enumeration order). \<open>PFunction f\<close> is the built-in function named \<open>f\<close>, which a block
  holds once a key that the object literal inherits has been pushed onto.
\<close>

datatype pv = PStr string | PList "pv list" | PBlock "(string \<times> pv) list" | PFunction string

text \<open>A property key: \<open>null\<close> used as a key is the name \<open>null\<close>.\<close>

definition key_name :: "string option \<Rightarrow> string" where
  "key_name key = (case key of None \<Rightarrow> ''null'' | Some k \<Rightarrow> k)"

text \<open>
  \<open>if (key in result) { if (!Array.isArray(result[key])) result[key] = [result[key]];
  result[key].push(v) } else result[key] = v\<close>. The operator \<open>in\<close> also holds for a name
  that \<open>result\<close>, an object literal, inherits; \<open>result[key]\<close> is then the inherited
  function.
\<close>

definition push_or_set :: "(string \<times> pv) list \<Rightarrow> string \<Rightarrow> pv \<Rightarrow> (string \<times> pv) list" where
  "push_or_set result key v =
     (case map_of result key of
        Some (PList xs) \<Rightarrow> obj_set result key (PList (xs @ [v]))
      | Some w \<Rightarrow> obj_set result key (PList [w, v])
      | None \<Rightarrow>
          (case inherited_object key of
             JFunction f \<Rightarrow> obj_set result key (PList [PFunction f, v])
           | w \<Rightarrow> obj_set result key v))"

text \<open>
  \<open>parseBlock\<close>: the \<open>while\<close> loop, over the text from \<open>current\<close> on. The result is the
  block and the text from the returned position on.
\<close>

function parseBlock_loop ::
  "(string \<times> pv) list \<Rightarrow> string \<Rightarrow> string option \<Rightarrow> string \<Rightarrow> (string \<times> pv) list \<times> string" where
  "parseBlock_loop result buffer key [] = (result, [])"
| "parseBlock_loop result buffer key (c # cs) =
     (if c = CHR ''{'' then
        (case parseBlock_loop [] [] None cs of
           (nestedResult, rest) \<Rightarrow>
             parseBlock_loop
               (push_or_set result
                  (key_name (if key = None \<and> buffer \<noteq> [] then Some (trim buffer) else key))
                  (PBlock nestedResult))
               (if key = None \<and> buffer \<noteq> [] then [] else buffer) None rest)
      else if c = CHR ''}'' then
        (if buffer \<noteq> [] \<and> trim buffer \<noteq> []
         then (push_or_set result (case key of None \<Rightarrow> ''_directives'' | Some k \<Rightarrow> k)
                 (PStr (trim buffer)), cs)
         else (result, cs))
      else if c = CHR '';'' then
        parseBlock_loop
          (if trim buffer \<noteq> []
           then push_or_set result (case key of None \<Rightarrow> ''_directives'' | Some k \<Rightarrow> k)
                  (PStr (trim buffer))
           else result)
          [] None cs
      else parseBlock_loop result (buffer @ [c]) key cs)"
  by pat_completeness auto

text \<open>
  The loop ends: a nested call hands back no more text than it was given.
\<close>

termination parseBlock_loop
proof (relation "measure (\<lambda>(r, b, k, t). length t)", goal_cases)
  case 1
  show ?case by simp
next
  case 2
  then show ?case by simp
next
  case (3 r b k c cs x y)
  have shorter: "parseBlock_loop_dom (r', b', k', t') \<Longrightarrow>
      length (snd (parseBlock_loop r' b' k' t')) \<le> length t'" for r' b' k' t'
  proof (induction r' b' k' t' rule: parseBlock_loop.pinduct)
    case (1 r b k)
    then show ?case by (simp add: parseBlock_loop.psimps)
  next
    case (2 r b k c cs)
    show ?case
      using 2
      by (auto simp: parseBlock_loop.psimps split: prod.splits if_splits)
  qed
  from 3(3) have "length (snd (parseBlock_loop [] [] None cs)) \<le> length cs"
    by (rule shorter)
  moreover from 3(2) have "snd (parseBlock_loop [] [] None cs) = y"
    by (metis snd_conv)
  ultimately show ?case by simp
next
  case 4
  then show ?case by simp
next
  case 5
  then show ?case by simp
qed

text \<open>\<open>.replace(/#.*$/gm, '')\<close>: from a \<open>#\<close> to the end of its line.\<close>

fun strip_comments :: "bool \<Rightarrow> string \<Rightarrow> string" where
  "strip_comments inComment [] = []"
| "strip_comments inComment (c # cs) =
     (if c = nl \<or> c = CHR 0x0D then c # strip_comments False cs
      else if inComment \<or> c = CHR ''#'' then strip_comments True cs
      else c # strip_comments False cs)"

text \<open>\<open>.replace(/\s+/g, ' ')\<close>: every run of whitespace becomes one space.\<close>

fun collapse_spaces :: "bool \<Rightarrow> string \<Rightarrow> string" where
  "collapse_spaces inRun [] = []"
| "collapse_spaces inRun (c # cs) =
     (if is_space c then (if inRun then collapse_spaces True cs
                          else CHR '' '' # collapse_spaces True cs)
      else c # collapse_spaces False cs)"

subsection \<open>String helpers of the extractor\<close>

text \<open>\<open>xs[i]\<close> on an array: \<open>undefined\<close> past the end.\<close>

definition nth_opt :: "'a list \<Rightarrow> nat \<Rightarrow> 'a option" where
  "nth_opt xs i = (if i < length xs then Some (xs ! i) else None)"

text \<open>\<open>s.includes(p)\<close>\<close>

fun js_includes :: "string \<Rightarrow> string \<Rightarrow> bool" where
  "js_includes [] p = (p = [])"
| "js_includes (c # cs) p = (starts_with (c # cs) p \<or> js_includes cs p)"

text \<open>\<open>s.match(/\d+/)\<close>: the first run of digits, \<open>null\<close> when there is none.\<close>

definition first_digits :: "string \<Rightarrow> string option" where
  "first_digits t =
     (let ds = takeWhile is_digit (dropWhile (\<lambda>c. \<not> is_digit c) t)
      in if ds = [] then None else Some ds)"

text \<open>
  \<open>parseInt(s)\<close>: leading whitespace, an optional sign, then a hexadecimal number after
  \<open>0x\<close> or a decimal one; \<open>NaN\<close> without a digit. The result is the double nearest to
  the integer read: the integer itself below \<open>2^53\<close>, an infinity past the largest
  double \<open>(2^53 - 1) * 2^971\<close>.
\<close>

definition hex_val :: "char \<Rightarrow> nat option" where
  "hex_val c =
     (if is_digit c then Some (digit_val c)
      else if c \<in> set ''abcdef'' then Some (of_char c - 87)
      else if c \<in> set ''ABCDEF'' then Some (of_char c - 55)
      else None)"

definition parse_magnitude :: "string \<Rightarrow> int option" where
  "parse_magnitude u =
     (if (starts_with u ''0x'' \<or> starts_with u ''0X'')
      then (let hs = takeWhile (\<lambda>c. hex_val c \<noteq> None) (drop 2 u)
            in if hs = [] then None
               else Some (foldl (\<lambda>n c. 16 * n + int (the (hex_val c))) 0 hs))
      else (let ds = takeWhile is_digit u
            in if ds = [] then None
               else Some (foldl (\<lambda>n c. 10 * n + int (digit_val c)) 0 ds)))"

definition nearest_number :: "bool \<Rightarrow> int \<Rightarrow> number" where
  "nearest_number negative i =
     (if i < 9007199254740992 then Num (if negative then - i else i)
      else (case to_double i 1 of
              (m, e) \<Rightarrow>
                if 971 < e then (if negative then NegInfinity else PosInfinity)
                else Num (if negative then - (m * 2 ^ nat e) else m * 2 ^ nat e)))"

definition parseInt :: "string \<Rightarrow> number" where
  "parseInt t =
     (let u = dropWhile is_space t
      in case u of
           [] \<Rightarrow> NaN
         | c # r \<Rightarrow>
             if c = CHR ''-'' then (case parse_magnitude r of None \<Rightarrow> NaN
                                    | Some i \<Rightarrow> nearest_number True i)
             else if c = CHR ''+'' then (case parse_magnitude r of None \<Rightarrow> NaN
                                         | Some i \<Rightarrow> nearest_number False i)
             else (case parse_magnitude u of None \<Rightarrow> NaN | Some i \<Rightarrow> nearest_number False i))"

definition is_quote :: "char \<Rightarrow> bool" where
  "is_quote c \<longleftrightarrow> c = CHR 0x22 \<or> c = CHR 0x27"

text \<open>\<open>.replace(/['"]/g, '')\<close>\<close>

definition strip_quotes :: "string \<Rightarrow> string" where
  "strip_quotes t = filter (\<lambda>c. \<not> is_quote c) t"

text \<open>\<open>.replace(/;$/, '').replace(/^["']|["']$/g, '')\<close>\<close>

definition header_value :: "string \<Rightarrow> string" where
  "header_value t =
     (let a = (if t \<noteq> [] \<and> last t = CHR '';'' then butlast t else t);
          b = (if a \<noteq> [] \<and> is_quote (hd a) then tl a else a)
      in if b \<noteq> [] \<and> is_quote (last b) then butlast b else b)"

subsection \<open>\<open>parseSSLConfig\<close>\<close>

definition empty_ssl :: SSLConfig where
  "empty_ssl = \<lparr>certificate = None, certificateKey = None, protocols = None,
     forceRedirect = None, ciphers = None, preferServerCiphers = None, dhParam = None,
     ocspStapling = None, sessionTimeout = None, sessionTickets = None, hsts = None\<rparr>"

text \<open>
  The loop body. The chain throws only where it calls \<open>split\<close> on \<open>undefined\<close>, which the
  guard \<open>startsWith('ssl_ciphers ')\<close> excludes; the case is kept as a \<open>TypeError\<close>.
\<close>

definition ssl_step :: "SSLConfig \<Rightarrow> string \<Rightarrow> error + SSLConfig" where
  "ssl_step sslConfig directive =
     (if starts_with directive ''ssl_certificate ''
      then Inr (sslConfig\<lparr>certificate := nth_opt (take 2 (split_on (CHR '' '') directive)) 1\<rparr>)
      else if starts_with directive ''ssl_certificate_key ''
      then Inr (sslConfig\<lparr>certificateKey :=
                  nth_opt (take 2 (split_on (CHR '' '') directive)) 1\<rparr>)
      else if starts_with directive ''ssl_protocols ''
      then Inr (sslConfig\<lparr>protocols := Some (tl (split_on (CHR '' '') directive))\<rparr>)
      else if starts_with directive ''ssl_ciphers ''
      then (case nth_opt (take 2 (split_on (CHR '' '') directive)) 1 of
              None \<Rightarrow> Inl TypeError
            | Some t \<Rightarrow> Inr (sslConfig\<lparr>ciphers := Some (split_on (CHR '':'') t)\<rparr>))
      else if directive = ''ssl_prefer_server_ciphers on''
      then Inr (sslConfig\<lparr>preferServerCiphers := Some True\<rparr>)
      else if starts_with directive ''ssl_dhparam ''
      then Inr (sslConfig\<lparr>dhParam := nth_opt (take 2 (split_on (CHR '' '') directive)) 1\<rparr>)
      else if directive = ''ssl_stapling on''
      then Inr (sslConfig\<lparr>ocspStapling := Some True\<rparr>)
      else if starts_with directive ''ssl_session_timeout ''
      then Inr (sslConfig\<lparr>sessionTimeout :=
                  nth_opt (take 2 (split_on (CHR '' '') directive)) 1\<rparr>)
      else Inr sslConfig)"

definition parseSSLConfig :: "string list \<Rightarrow> error + SSLConfig" where
  "parseSSLConfig directives = for_each ssl_step directives empty_ssl"

subsection \<open>\<open>parseLocation\<close>\<close>

definition empty_location :: "string \<Rightarrow> Location" where
  "empty_location p = \<lparr>loc_path = p, proxyPass = None, root = None, index = None,
     try_files = None, extraDirectives = None, php = None, websocket = None, cache = None,
     rateLimit = None, cors = None\<rparr>"

definition new_php :: PhpConfig where
  "new_php = \<lparr>php_enabled = True, socketPath = None, extraParams = None\<rparr>"

definition new_cache :: CacheConfig where
  "new_cache = \<lparr>cache_enabled = True, validTime = None, cache_keys = None, useStale = None,
     minUses = None, bypass = None, noCache = None, noStore = None, cache_methods = None\<rparr>"

definition new_rateLimit :: RateLimit where
  "new_rateLimit = \<lparr>rate = None, burstSize = None, nodelay = None\<rparr>"

definition new_cors :: CorsConfig where
  "new_cors = \<lparr>cors_enabled = True, origins = None, cors_methods = None,
     cors_headers = None, credentials = None\<rparr>"

text \<open>\<open>if (!location.x) location.x = {...}\<close>, then the object to update.\<close>

definition or_new :: "'a option \<Rightarrow> 'a \<Rightarrow> 'a" where
  "or_new v fresh = (case v of None \<Rightarrow> fresh | Some w \<Rightarrow> w)"

text \<open>The loop over \<open>parts.slice(1)\<close> of a \<open>limit_req\<close> directive.\<close>

definition rate_part :: "RateLimit \<Rightarrow> string \<Rightarrow> RateLimit" where
  "rate_part rl part =
     (if starts_with part ''rate='' then rl\<lparr>rate := Some (drop 5 part)\<rparr>
      else if starts_with part ''burst='' then rl\<lparr>burstSize := Some (parseInt (drop 6 part))\<rparr>
      else if part = ''nodelay'' then rl\<lparr>nodelay := Some True\<rparr>
      else rl)"

text \<open>The recognized directive names of a location, as the chain of \<open>startsWith\<close> tests.\<close>

definition passthrough_name :: "string \<Rightarrow> bool" where
  "passthrough_name directive \<longleftrightarrow>
     starts_with directive ''expires'' \<or> starts_with directive ''add_header''
     \<or> starts_with directive ''access_log''"

definition cors_header :: "CorsConfig \<Rightarrow> string \<Rightarrow> string list \<Rightarrow> CorsConfig" where
  "cors_header corsConfig directive parts =
     (let v = strip_quotes (last parts)
      in if js_includes directive ''Allow-Origin'' then corsConfig\<lparr>origins := Some [v]\<rparr>
         else if js_includes directive ''Allow-Methods''
         then corsConfig\<lparr>cors_methods := Some (map trim (split_on (CHR '','') v))\<rparr>
         else if js_includes directive ''Allow-Headers''
         then corsConfig\<lparr>cors_headers := Some (map trim (split_on (CHR '','') v))\<rparr>
         else if js_includes directive ''Allow-Credentials''
         then corsConfig\<lparr>credentials := Some (v = ''true'')\<rparr>
         else corsConfig)"

text \<open>The body of the loop over the directives of a location.\<close>

definition location_directive :: "Location \<Rightarrow> string \<Rightarrow> Location" where
  "location_directive location directive =
     (let parts = split_on (CHR '' '') directive
      in if starts_with directive ''root '' then location\<lparr>root := nth_opt parts 1\<rparr>
         else if starts_with directive ''index ''
         then location\<lparr>index := Some (join '' '' (tl parts))\<rparr>
         else if starts_with directive ''try_files ''
         then location\<lparr>try_files := Some (join '' '' (tl parts))\<rparr>
         else if starts_with directive ''proxy_pass ''
         then location\<lparr>proxyPass := nth_opt parts 1\<rparr>
         else if starts_with directive ''fastcgi_pass ''
         then location\<lparr>php := Some ((or_new (php location) new_php)
                                        \<lparr>socketPath := nth_opt parts 1\<rparr>)\<rparr>
         else if starts_with directive ''proxy_cache_valid ''
         then location\<lparr>cache := Some ((or_new (cache location) new_cache)
                                          \<lparr>validTime := nth_opt parts 1\<rparr>)\<rparr>
         else if starts_with directive ''proxy_cache_key ''
         then location\<lparr>cache := Some ((or_new (cache location) new_cache)
                                          \<lparr>cache_keys := Some (tl parts)\<rparr>)\<rparr>
         else if starts_with directive ''proxy_cache_use_stale ''
         then location\<lparr>cache := Some ((or_new (cache location) new_cache)
                                          \<lparr>useStale := Some (tl parts)\<rparr>)\<rparr>
         else if starts_with directive ''limit_req ''
         then location\<lparr>rateLimit :=
                Some (foldl rate_part (or_new (rateLimit location) new_rateLimit) (tl parts))\<rparr>
         else if starts_with directive ''add_header Access-Control-''
         then location\<lparr>cors :=
                Some (cors_header (or_new (cors location) new_cors) directive parts)\<rparr>
         else if passthrough_name directive
         then location\<lparr>extraDirectives :=
                Some (or_new (extraDirectives location) [] @ [directive])\<rparr>
         else location)"

text \<open>
  An element of \<open>_directives\<close> is used as a string; \<open>split\<close> on anything else throws.
\<close>

definition on_string :: "('s \<Rightarrow> string \<Rightarrow> error + 's) \<Rightarrow> 's \<Rightarrow> pv \<Rightarrow> error + 's" where
  "on_string f st d = (case d of PStr t \<Rightarrow> f st t | w \<Rightarrow> Inl TypeError)"

text \<open>
  \<open>_directives\<close> as the list to loop over: \<open>None\<close> when the field is falsy (missing, or
  the empty string).
\<close>

definition directives_of :: "(string \<times> pv) list \<Rightarrow> pv list option" where
  "directives_of block =
     (case map_of block ''_directives'' of
        None \<Rightarrow> None
      | Some (PStr t) \<Rightarrow> if t = [] then None else Some [PStr t]
      | Some (PList xs) \<Rightarrow> Some xs
      | Some w \<Rightarrow> Some [w])"

definition parseLocation :: "pv \<Rightarrow> error + Location" where
  "parseLocation locationData =
     (case locationData of
        PBlock block \<Rightarrow>
          (case map_of block ''location'' of
             Some (PStr t) \<Rightarrow>
               (case directives_of block of
                  None \<Rightarrow> Inr (empty_location (hd (split_on (CHR '' '') t)))
                | Some directives \<Rightarrow>
                    for_each (on_string (\<lambda>location d. Inr (location_directive location d)))
                      directives (empty_location (hd (split_on (CHR '' '') t))))
           | w \<Rightarrow> Inl TypeError)
      | w \<Rightarrow> Inl TypeError)"

subsection \<open>\<open>parseServer\<close> and \<open>convert\<close>\<close>

definition empty_config :: ExtractedConfig where
  "empty_config = \<lparr>x_serverName = None, x_domain = None, x_port = None, x_ssl = None,
     x_clientMaxBodySize = None, x_gzip = None, x_gzipTypes = None, x_security = None,
     x_locations = None\<rparr>"

definition empty_security :: SecurityHeaders where
  "empty_security = \<lparr>xFrameOptions = None, xContentTypeOptions = None, xXSSProtection = None,
     strictTransport = None, referrerPolicy = None, contentSecurityPolicy = None\<rparr>"

text \<open>The first loop of \<open>parseServer\<close>.\<close>

definition server_directive :: "ExtractedConfig \<Rightarrow> string \<Rightarrow> error + ExtractedConfig" where
  "server_directive config directive =
     (let parts = split_on (CHR '' '') directive
      in if starts_with directive ''server_name ''
         then Inr (config\<lparr>x_serverName := Some (join '' '' (tl parts)),
                     x_domain := Some (hd (split_on (CHR '' '') (join '' '' (tl parts))))\<rparr>)
         else if starts_with directive ''listen ''
         then (case nth_opt parts 1 of
                 None \<Rightarrow> Inl TypeError
               | Some p1 \<Rightarrow>
                   (case first_digits p1 of
                      None \<Rightarrow> Inl TypeError
                    | Some ds \<Rightarrow>
                        Inr (config\<lparr>x_port := Some (parseInt ds),
                               x_ssl := (if ''ssl'' \<in> set parts
                                         then Some (or_new (x_ssl config) empty_ssl)
                                         else x_ssl config)\<rparr>)))
         else if starts_with directive ''client_max_body_size ''
         then Inr (config\<lparr>x_clientMaxBodySize := nth_opt parts 1\<rparr>)
         else if directive = ''gzip on'' then Inr (config\<lparr>x_gzip := Some True\<rparr>)
         else if starts_with directive ''gzip_types ''
         then Inr (config\<lparr>x_gzipTypes := Some (tl parts)\<rparr>)
         else Inr config)"

text \<open>The loop over the \<open>add_header\<close> directives of a server.\<close>

definition security_directive :: "SecurityHeaders \<Rightarrow> string \<Rightarrow> error + SecurityHeaders" where
  "security_directive securityHeaders directive =
     (if starts_with directive ''add_header ''
      then (let parts = split_on (CHR '' '') directive;
                header = nth_opt parts 1;
                v = header_value (join '' '' (drop 2 parts))
            in if header = Some ''X-Frame-Options''
               then Inr (securityHeaders\<lparr>xFrameOptions := Some v\<rparr>)
               else if header = Some ''X-Content-Type-Options''
               then Inr (securityHeaders\<lparr>xContentTypeOptions := Some True\<rparr>)
               else if header = Some ''X-XSS-Protection''
               then Inr (securityHeaders\<lparr>xXSSProtection := Some True\<rparr>)
               else if header = Some ''Referrer-Policy''
               then Inr (securityHeaders\<lparr>referrerPolicy := Some v\<rparr>)
               else if header = Some ''Content-Security-Policy''
               then Inr (securityHeaders\<lparr>contentSecurityPolicy :=
                           Some (map trim (split_on (CHR '';'') v))\<rparr>)
               else Inr securityHeaders)
      else Inr securityHeaders)"

text \<open>\<open>locations.map(loc => this.parseLocation(loc))\<close>\<close>

fun map_locations :: "pv list \<Rightarrow> error + Location list" where
  "map_locations [] = Inr []"
| "map_locations (loc # rest) =
     (case parseLocation loc of
        Inl e \<Rightarrow> Inl e
      | Inr l \<Rightarrow> (case map_locations rest of Inl e \<Rightarrow> Inl e | Inr ls \<Rightarrow> Inr (l # ls)))"

text \<open>\<open>directives.filter(d => d.startsWith('ssl_'))\<close>; \<open>startsWith\<close> needs a string.\<close>

fun ssl_directives :: "pv list \<Rightarrow> error + string list" where
  "ssl_directives [] = Inr []"
| "ssl_directives (PStr t # rest) =
     (case ssl_directives rest of
        Inl e \<Rightarrow> Inl e
      | Inr ts \<Rightarrow> Inr (if starts_with t ''ssl_'' then t # ts else ts))"
| "ssl_directives (w # rest) = Inl TypeError"

definition parseServer :: "pv \<Rightarrow> error + ExtractedConfig" where
  "parseServer serverData =
     (case serverData of
        PBlock block \<Rightarrow>
          (case directives_of block of
             None \<Rightarrow> Inr empty_config
           | Some directives \<Rightarrow>
               (case for_each (on_string server_directive) directives empty_config of
                  Inl e \<Rightarrow> Inl e
                | Inr config1 \<Rightarrow>
                    (case ssl_directives directives of
                       Inl e \<Rightarrow> Inl e
                     | Inr sslDirectives \<Rightarrow>
                         (case (if sslDirectives \<noteq> []
                                then (case parseSSLConfig sslDirectives of
                                        Inl e \<Rightarrow> Inl e
                                      | Inr sslConfig \<Rightarrow> Inr (config1\<lparr>x_ssl := Some sslConfig\<rparr>))
                                else Inr config1) of
                            Inl e \<Rightarrow> Inl e
                          | Inr config2 \<Rightarrow>
                              (case for_each (on_string security_directive) directives
                                      empty_security of
                                 Inl e \<Rightarrow> Inl e
                               | Inr securityHeaders \<Rightarrow>
                                   (let config3 =
                                          (if securityHeaders \<noteq> empty_security
                                           then config2\<lparr>x_security := Some securityHeaders\<rparr>
                                           else config2)
                                    in case map_of block ''location'' of
                                         None \<Rightarrow> Inr config3
                                       | Some (PList locs) \<Rightarrow>
                                           (case map_locations locs of
                                              Inl e \<Rightarrow> Inl e
                                            | Inr ls \<Rightarrow> Inr (config3\<lparr>x_locations := Some ls\<rparr>))
                                       | Some loc \<Rightarrow>
                                           (case map_locations [loc] of
                                              Inl e \<Rightarrow> Inl e
                                            | Inr ls \<Rightarrow>
                                                Inr (config3\<lparr>x_locations := Some ls\<rparr>))))))))
      | w \<Rightarrow> Inr empty_config)"

text \<open>\<open>NginxParser.parse\<close>\<close>

definition parse_blocks :: "string \<Rightarrow> (string \<times> pv) list" where
  "parse_blocks configText =
     fst (parseBlock_loop [] [] None
            (collapse_spaces False (strip_comments False configText)))"

text \<open>
  \<open>convert\<close> returns the one configuration itself when there is exactly one server block
  (or none, then \<open>{}\<close>), the array of configurations otherwise.
\<close>

datatype converted = Single ExtractedConfig | Multiple "ExtractedConfig list"

fun map_servers :: "pv list \<Rightarrow> error + ExtractedConfig list" where
  "map_servers [] = Inr []"
| "map_servers (server # rest) =
     (case parseServer server of
        Inl e \<Rightarrow> Inl e
      | Inr c \<Rightarrow> (case map_servers rest of Inl e \<Rightarrow> Inl e | Inr cs \<Rightarrow> Inr (c # cs)))"

definition convert :: "string \<Rightarrow> error + converted" where
  "convert nginxConfig =
     (case map_of (parse_blocks nginxConfig) ''server'' of
        None \<Rightarrow> Inr (Single empty_config)
      | Some servers \<Rightarrow>
          (case map_servers (case servers of PList xs \<Rightarrow> xs | w \<Rightarrow> [w]) of
             Inl e \<Rightarrow> Inl e
           | Inr configs \<Rightarrow>
               (case configs of [c] \<Rightarrow> Inr (Single c) | cs \<Rightarrow> Inr (Multiple cs))))"

section \<open>The schema-to-text generator: \<open>generateNginxConfig\<close>\<close>

abbreviation dq :: char where
  "dq \<equiv> CHR 0x22"

abbreviation sq :: char where
  "sq \<equiv> CHR 0x27"

text \<open>\<open>xs?.join(sep) || dflt\<close>\<close>

definition join_or :: "string \<Rightarrow> string list option \<Rightarrow> string \<Rightarrow> string" where
  "join_or sep xs dflt =
     (case xs of None \<Rightarrow> dflt | Some ys \<Rightarrow> if join sep ys = [] then dflt else join sep ys)"

subsection \<open>Upstream blocks\<close>

text \<open>The body of \<open>servers.forEach\<close>: the text added to \<open>nginxConfig\<close> for one server.\<close>

definition upstream_server :: "string \<Rightarrow> UpstreamServer \<Rightarrow> string" where
  "upstream_server nginxConfig server =
     (let serverConfig0 = ''    server '' @ address server;
          serverConfig1 = (if truthy_num (weight server)
                           then serverConfig0 @ '' weight='' @ tpl_num (weight server)
                           else serverConfig0);
          serverConfig2 = (if truthy_num (maxFails server)
                           then serverConfig1 @ '' max_fails='' @ tpl_num (maxFails server)
                           else serverConfig1);
          serverConfig3 = (if truthy_str (failTimeout server)
                           then serverConfig2 @ '' fail_timeout='' @ tpl_str (failTimeout server)
                           else serverConfig2)
      in nginxConfig @ serverConfig3 @ '';'' @ [nl])"

text \<open>The body of the loop over \<open>Object.entries(config.upstreams)\<close>.\<close>

definition upstream_entry :: "string \<Rightarrow> string \<times> UpstreamServer list \<Rightarrow> string" where
  "upstream_entry nginxConfig entry =
     foldl upstream_server (nginxConfig @ ''upstream '' @ fst entry @ '' {'' @ [nl]) (snd entry)
     @ ''}'' @ [nl, nl]"

subsection \<open>Microservice routes\<close>

definition cors_directives :: "CorsConfig \<Rightarrow> string list" where
  "cors_directives c =
     [''add_header '' @ [sq] @ ''Access-Control-Allow-Origin'' @ [sq] @ '' '' @ [sq]
        @ join_or '' '' (origins c) ''*'' @ [sq],
      ''add_header '' @ [sq] @ ''Access-Control-Allow-Methods'' @ [sq] @ '' '' @ [sq]
        @ join_or '' '' (cors_methods c) ''GET, POST, OPTIONS'' @ [sq],
      ''add_header '' @ [sq] @ ''Access-Control-Allow-Headers'' @ [sq] @ '' '' @ [sq]
        @ join_or '' '' (cors_headers c)
            ''DNT,X-CustomHeader,Keep-Alive,User-Agent,X-Requested-With,If-Modified-Since,Cache-Control,Content-Type''
        @ [sq]]
     @ (if truthy_bool (credentials c)
        then [''add_header '' @ [sq] @ ''Access-Control-Allow-Credentials'' @ [sq] @ '' ''
                @ [sq] @ ''true'' @ [sq]]
        else [])"

text \<open>The \<open>location\<close> object built for one microservice route.\<close>

definition microservice_location :: "MicroserviceRoute \<Rightarrow> Location" where
  "microservice_location ms =
     (let extra0 = [];
          extra1 = (if truthy_str (rewrite ms)
                    then extra0 @ [''rewrite '' @ tpl_str (rewrite ms)] else extra0);
          extra2 = (if truthy_bool (stripPath ms)
                    then extra1 @ [''rewrite ^/[^/]+/(.*) /$1 break''] else extra1);
          extra3 = (case ms_methods ms of
                      Some m \<Rightarrow> extra2 @ [''limit_except '' @ join '' '' m @ '' { deny all; }'']
                    | None \<Rightarrow> extra2);
          extra4 = (case ms_cors ms of
                      Some c \<Rightarrow> if cors_enabled c then extra3 @ cors_directives c else extra3
                    | None \<Rightarrow> extra3)
      in (empty_location (ms_path ms))
           \<lparr>proxyPass := Some (''http://'' @ upstream ms), extraDirectives := Some extra4\<rparr>)"

text \<open>The body of \<open>config.microservices.forEach\<close>: \<open>config.locations.push(location)\<close>.\<close>

definition push_microservice :: "NginxConfig \<Rightarrow> MicroserviceRoute \<Rightarrow> NginxConfig" where
  "push_microservice config ms =
     config\<lparr>locations := locations config @ [microservice_location ms]\<rparr>"

subsection \<open>Location blocks\<close>

definition proxy_lines :: "Location \<Rightarrow> string" where
  "proxy_lines loc =
     (if truthy_str (proxyPass loc)
      then ''        proxy_pass '' @ tpl_str (proxyPass loc) @ '';'' @ [nl]
           @ ''        proxy_set_header Host $host;'' @ [nl]
           @ ''        proxy_set_header X-Real-IP $remote_addr;'' @ [nl]
           @ ''        proxy_set_header X-Forwarded-For $proxy_add_x_forwarded_for;'' @ [nl]
           @ ''        proxy_set_header X-Forwarded-Proto $scheme;'' @ [nl]
      else [])"

definition websocket_lines :: "Location \<Rightarrow> string" where
  "websocket_lines loc =
     (case websocket loc of
        None \<Rightarrow> []
      | Some ws \<Rightarrow>
          if ws_enabled ws
          then ''        proxy_http_version 1.1;'' @ [nl]
               @ ''        proxy_set_header Upgrade $http_upgrade;'' @ [nl]
               @ ''        proxy_set_header Connection '' @ [dq] @ ''upgrade'' @ [dq] @ '';'' @ [nl]
               @ (if truthy_num (timeout ws)
                  then ''        proxy_read_timeout '' @ tpl_num (timeout ws) @ ''s;'' @ [nl]
                  else [])
               @ (if truthy_num (keepaliveTimeout ws)
                  then ''        proxy_send_timeout '' @ tpl_num (keepaliveTimeout ws) @ ''s;'' @ [nl]
                       @ ''        proxy_read_timeout '' @ tpl_num (keepaliveTimeout ws) @ ''s;''
                       @ [nl]
                  else [])
          else [])"

definition static_lines :: "Location \<Rightarrow> string" where
  "static_lines loc =
     (if truthy_str (root loc) then ''        root '' @ tpl_str (root loc) @ '';'' @ [nl] else [])
     @ (if truthy_str (index loc) then ''        index '' @ tpl_str (index loc) @ '';'' @ [nl]
        else [])
     @ (if truthy_str (try_files loc)
        then ''        try_files '' @ tpl_str (try_files loc) @ '';'' @ [nl] else [])"

definition php_lines :: "Location \<Rightarrow> string" where
  "php_lines loc =
     (case php loc of
        None \<Rightarrow> []
      | Some p \<Rightarrow>
          if php_enabled p
          then ''        fastcgi_pass ''
               @ (if truthy_str (socketPath p) then tpl_str (socketPath p)
                  else ''unix:/var/run/php/php-fpm.sock'')
               @ '';'' @ [nl]
               @ ''        fastcgi_index index.php;'' @ [nl]
               @ ''        include fastcgi_params;'' @ [nl]
               @ (case extraParams p of
                    None \<Rightarrow> []
                  | Some params \<Rightarrow>
                      foldl (\<lambda>locationConfig (k, v).
                               locationConfig @ ''        fastcgi_param '' @ k @ '' '' @ v @ '';''
                               @ [nl]) [] params)
          else [])"

definition list_line :: "string \<Rightarrow> string list option \<Rightarrow> string" where
  "list_line name xs =
     (case xs of
        None \<Rightarrow> []
      | Some ys \<Rightarrow> ''        '' @ name @ '' '' @ join '' '' ys @ '';'' @ [nl])"

definition cache_lines :: "Location \<Rightarrow> string" where
  "cache_lines loc =
     (case cache loc of
        None \<Rightarrow> []
      | Some c \<Rightarrow>
          if cache_enabled c
          then ''        proxy_cache_valid ''
               @ (if truthy_str (validTime c) then tpl_str (validTime c) else ''60m'')
               @ '';'' @ [nl]
               @ list_line ''proxy_cache_key'' (cache_keys c)
               @ list_line ''proxy_cache_use_stale'' (useStale c)
               @ (if truthy_num (minUses c)
                  then ''        proxy_cache_min_uses '' @ tpl_num (minUses c) @ '';'' @ [nl]
                  else [])
               @ list_line ''proxy_cache_bypass'' (bypass c)
               @ list_line ''proxy_no_cache'' (noCache c)
               @ list_line ''proxy_cache_methods'' (cache_methods c)
          else [])"

definition cors_lines :: "Location \<Rightarrow> string" where
  "cors_lines loc =
     (case cors loc of
        None \<Rightarrow> []
      | Some c \<Rightarrow>
          if cors_enabled c
          then concat (map (\<lambda>d. ''        '' @ d @ '';'' @ [nl]) (cors_directives c))
          else [])"

definition rate_limit_lines :: "Location \<Rightarrow> string" where
  "rate_limit_lines loc =
     (case rateLimit loc of
        None \<Rightarrow> []
      | Some r \<Rightarrow>
          ''        limit_req zone=one rate='' @ tpl_str (rate r)
          @ (if truthy_num (burstSize r)
             then '' burst='' @ tpl_num (burstSize r)
                  @ (if truthy_bool (nodelay r) then '' nodelay'' else [])
             else [])
          @ '';'' @ [nl])"

text \<open>\<open>loc.extraDirectives.map(d => `        ${d};\n`).join('')\<close>\<close>

definition extra_lines :: "Location \<Rightarrow> string" where
  "extra_lines loc =
     (case extraDirectives loc of
        None \<Rightarrow> []
      | Some ds \<Rightarrow> join [] (map (\<lambda>d. ''        '' @ d @ '';'' @ [nl]) ds))"

text \<open>
  The callback of \<open>config.locations.map\<close>: \<open>locationConfig\<close> starts as the opening
  line, every \<open>if\<close> statement appends its lines, and the closing line comes last.
\<close>

definition location_block :: "Location \<Rightarrow> string" where
  "location_block loc =
     (let locationConfig0 = ''    location '' @ loc_path loc @ '' {'' @ [nl];
          locationConfig1 = locationConfig0 @ proxy_lines loc;
          locationConfig2 = locationConfig1 @ websocket_lines loc;
          locationConfig3 = locationConfig2 @ static_lines loc;
          locationConfig4 = locationConfig3 @ php_lines loc;
          locationConfig5 = locationConfig4 @ cache_lines loc;
          locationConfig6 = locationConfig5 @ cors_lines loc;
          locationConfig7 = locationConfig6 @ rate_limit_lines loc;
          locationConfig8 = locationConfig7 @ extra_lines loc
      in locationConfig8 @ ''    }'' @ [nl])"

subsection \<open>The main server block\<close>

definition hsts_line :: "Hsts \<Rightarrow> string" where
  "hsts_line h =
     (if hsts_enabled h
      then [nl] @ ''    add_header Strict-Transport-Security '' @ [dq] @ ''max-age=''
           @ (if truthy_num (maxAge h) then tpl_num (maxAge h) else ''31536000'')
           @ (if truthy_bool (includeSubdomains h) then ''; includeSubDomains'' else [])
           @ (if truthy_bool (preload h) then ''; preload'' else [])
           @ [dq] @ '';''
      else [])"

definition ssl_lines :: "SSLConfig \<Rightarrow> string" where
  "ssl_lines s =
     [nl] @ ''    ssl_certificate '' @ tpl_str (certificate s) @ '';'' @ [nl]
     @ ''    ssl_certificate_key '' @ tpl_str (certificateKey s) @ '';''
     @ (case protocols s of
          None \<Rightarrow> []
        | Some ps \<Rightarrow> [nl] @ ''    ssl_protocols '' @ join '' '' ps @ '';'')
     @ (case ciphers s of
          None \<Rightarrow> []
        | Some cs \<Rightarrow> [nl] @ ''    ssl_ciphers '' @ join '':'' cs @ '';'')
     @ (if truthy_bool (preferServerCiphers s)
        then [nl] @ ''    ssl_prefer_server_ciphers on;'' else [])
     @ (if truthy_str (dhParam s)
        then [nl] @ ''    ssl_dhparam '' @ tpl_str (dhParam s) @ '';'' else [])
     @ (if truthy_bool (ocspStapling s)
        then [nl] @ ''    ssl_stapling on;'' @ [nl] @ ''    ssl_stapling_verify on;'' else [])
     @ (if truthy_str (sessionTimeout s)
        then [nl] @ ''    ssl_session_timeout '' @ tpl_str (sessionTimeout s) @ '';'' else [])
     @ (if sessionTickets s = Some False then [nl] @ ''    ssl_session_tickets off;'' else [])
     @ (case hsts s of None \<Rightarrow> [] | Some h \<Rightarrow> hsts_line h)"

definition security_lines :: "SecurityHeaders \<Rightarrow> string" where
  "security_lines h =
     (if truthy_str (xFrameOptions h)
      then [nl] @ ''    add_header X-Frame-Options '' @ [dq] @ tpl_str (xFrameOptions h) @ [dq]
           @ '';''
      else [])
     @ (if truthy_bool (xContentTypeOptions h)
        then [nl] @ ''    add_header X-Content-Type-Options '' @ [dq] @ ''nosniff'' @ [dq] @ '';''
        else [])
     @ (if truthy_bool (xXSSProtection h)
        then [nl] @ ''    add_header X-XSS-Protection '' @ [dq] @ ''1; mode=block'' @ [dq] @ '';''
        else [])
     @ (if truthy_str (referrerPolicy h)
        then [nl] @ ''    add_header Referrer-Policy '' @ [dq] @ tpl_str (referrerPolicy h) @ [dq]
             @ '';''
        else [])
     @ (case contentSecurityPolicy h of
          None \<Rightarrow> []
        | Some csp \<Rightarrow> [nl] @ ''    add_header Content-Security-Policy '' @ [dq] @ join ''; '' csp
                      @ [dq] @ '';'')"

definition gzip_lines :: "NginxConfig \<Rightarrow> string" where
  "gzip_lines config =
     (if truthy_bool (gzip config)
      then [nl] @ ''    gzip on;''
           @ (case gzipTypes config of
                Some ts \<Rightarrow> [nl] @ ''    gzip_types '' @ join '' '' ts @ '';''
              | None \<Rightarrow> [nl] @ ''    gzip_types text/plain text/css application/json application/javascript text/xml application/xml application/xml+rss text/javascript;'')
      else [])"

text \<open>\<open>serverConfig\<close>, from its first assignment to \<open>serverConfig += `\n\n${locations}}`\<close>.\<close>

definition server_block :: "NginxConfig \<Rightarrow> string \<Rightarrow> string" where
  "server_block config locationsText =
     (let serverConfig0 = ''server {'' @ [nl]
            @ ''    listen '' @ show_number (port config)
            @ (if ssl config \<noteq> None then '' ssl'' else []) @ '';'' @ [nl]
            @ ''    server_name '' @ serverName config @ '';'' @ [nl];
          serverConfig1 = (case ssl config of
                             None \<Rightarrow> serverConfig0
                           | Some s \<Rightarrow> serverConfig0 @ ssl_lines s);
          serverConfig2 = (case security config of
                             None \<Rightarrow> serverConfig1
                           | Some h \<Rightarrow> serverConfig1 @ security_lines h);
          serverConfig3 = (if truthy_str (clientMaxBodySize config)
                           then serverConfig2 @ [nl] @ ''    client_max_body_size ''
                                @ tpl_str (clientMaxBodySize config) @ '';''
                           else serverConfig2);
          serverConfig4 = serverConfig3 @ gzip_lines config
      in serverConfig4 @ [nl, nl] @ locationsText @ ''}'')"

text \<open>
  \<open>generateNginxConfig\<close>: the returned text, and the \<open>config\<close> object as the call leaves
  it (the function pushes onto \<open>config.locations\<close>). The redirect block is added when
  \<open>config.ssl?.forceRedirect\<close> is truthy.
\<close>

definition generateNginxConfig :: "NginxConfig \<Rightarrow> string \<times> NginxConfig" where
  "generateNginxConfig config =
     (let nginxConfig0 = [];
          nginxConfig1 = (case upstreams config of
                            None \<Rightarrow> nginxConfig0
                          | Some pools \<Rightarrow> foldl upstream_entry nginxConfig0 pools);
          nginxConfig2 = (if (case ssl config of
                                None \<Rightarrow> False
                              | Some s \<Rightarrow> truthy_bool (forceRedirect s))
                          then nginxConfig1
                               @ ''server {'' @ [nl]
                               @ ''    listen 80;'' @ [nl]
                               @ ''    server_name '' @ serverName config @ '';'' @ [nl]
                               @ ''    return 301 https://$server_name$request_uri;'' @ [nl]
                               @ ''}'' @ [nl, nl]
                          else nginxConfig1);
          config' = (case microservices config of
                       None \<Rightarrow> config
                     | Some routes \<Rightarrow> foldl push_microservice config routes);
          locationsText = join [nl] (map location_block (locations config'));
          serverConfig = server_block config' locationsText
      in (nginxConfig2 @ serverConfig, config'))"

subsection \<open>The order of the generated text, as the specification words it\<close>

text \<open>
  One line per server of a pool: the address, then each clause only when its field is
  present (and truthy).
\<close>

definition clause_num :: "string \<Rightarrow> number option \<Rightarrow> string" where
  "clause_num label v =
     (case v of None \<Rightarrow> [] | Some n \<Rightarrow> if num_truthy n then label @ show_number n else [])"

definition clause_str :: "string \<Rightarrow> string option \<Rightarrow> string" where
  "clause_str label v = (case v of None \<Rightarrow> [] | Some t \<Rightarrow> if t = [] then [] else label @ t)"

definition spec_server_line :: "UpstreamServer \<Rightarrow> string" where
  "spec_server_line server =
     ''    server '' @ address server
     @ clause_num '' weight='' (weight server)
     @ clause_num '' max_fails='' (maxFails server)
     @ clause_str '' fail_timeout='' (failTimeout server)
     @ '';'' @ [nl]"

definition spec_upstream_block :: "string \<times> UpstreamServer list \<Rightarrow> string" where
  "spec_upstream_block pool =
     ''upstream '' @ fst pool @ '' {'' @ [nl]
     @ concat (map spec_server_line (snd pool))
     @ ''}'' @ [nl, nl]"

text \<open>The locations of the schema, in order, followed by one per microservice route.\<close>

definition all_locations :: "NginxConfig \<Rightarrow> Location list" where
  "all_locations config =
     locations config
     @ map microservice_location (case microservices config of None \<Rightarrow> [] | Some rs \<Rightarrow> rs)"

text \<open>SSL forced redirect is requested: the schema has an SSL facet whose flag is set.\<close>

definition redirect_requested :: "NginxConfig \<Rightarrow> bool" where
  "redirect_requested config \<longleftrightarrow>
     (case ssl config of None \<Rightarrow> False | Some s \<Rightarrow> forceRedirect s = Some True)"

text \<open>
  The HTTP-to-HTTPS redirect server block: it listens on port 80 under the server name
  and answers every request with a redirect to the \<open>https\<close> address.
\<close>

definition spec_redirect_block :: "string \<Rightarrow> string" where
  "spec_redirect_block name =
     ''server {'' @ [nl]
     @ ''    listen 80;'' @ [nl]
     @ ''    server_name '' @ name @ '';'' @ [nl]
     @ ''    return 301 https://$server_name$request_uri;'' @ [nl]
     @ ''}'' @ [nl, nl]"

text \<open>
  A location block: the opening line with the path of the rule, its clauses, the closing
  line. The claim leaves the clauses to the generator; they are its lines for the proxy,
  websocket, static-file, PHP, cache, CORS and rate-limit facets and the passthrough
  directives.
\<close>

definition spec_location_block :: "Location \<Rightarrow> string" where
  "spec_location_block loc =
     ''    location '' @ loc_path loc @ '' {'' @ [nl]
     @ (proxy_lines loc @ websocket_lines loc @ static_lines loc @ php_lines loc
        @ cache_lines loc @ cors_lines loc @ rate_limit_lines loc @ extra_lines loc)
     @ ''    }'' @ [nl]"

text \<open>
  The main server block: \<open>server {\<close>, the listen and server-name lines, the lines of
  the SSL, security, body-size and gzip settings (again the generator's), an empty line,
  the location blocks in the given order with one line break between them, and the
  closing brace.
\<close>

definition spec_server_block :: "NginxConfig \<Rightarrow> Location list \<Rightarrow> string" where
  "spec_server_block config locs =
     ''server {'' @ [nl]
     @ ''    listen '' @ show_number (port config)
     @ (case ssl config of None \<Rightarrow> [] | Some s \<Rightarrow> '' ssl'') @ '';'' @ [nl]
     @ ''    server_name '' @ serverName config @ '';'' @ [nl]
     @ ((case ssl config of None \<Rightarrow> [] | Some s \<Rightarrow> ssl_lines s)
        @ (case security config of None \<Rightarrow> [] | Some h \<Rightarrow> security_lines h)
        @ (if truthy_str (clientMaxBodySize config)
           then [nl] @ ''    client_max_body_size '' @ tpl_str (clientMaxBodySize config) @ '';''
           else [])
        @ gzip_lines config)
     @ [nl, nl]
     @ join [nl] (map spec_location_block locs)
     @ ''}''"

section \<open>Sample file systems\<close>

text \<open>A file system with two files that match \<open>conf.d/*.conf\<close>, and one with none.\<close>

definition two_servers :: FileSystem where
  "two_servers = \<lparr>
     expandGlob = (\<lambda>root pattern.
        if pattern = ''conf.d/*.conf'' then [''conf.d/a.conf'', ''conf.d/b.conf''] else []),
     readTextFile = (\<lambda>path.
        if path = ''conf.d/a.conf'' then Some (''server {'' @ [nl] @ ''listen 80;'' @ [nl] @ ''}'')
        else if path = ''conf.d/b.conf''
        then Some (''server {'' @ [nl] @ ''listen 81;'' @ [nl] @ ''}'')
        else None),
     cwd = ''/etc/nginx''\<rparr>"

definition no_files :: FileSystem where
  "no_files = \<lparr>expandGlob = (\<lambda>root pattern. []), readTextFile = (\<lambda>path. None),
     cwd = ''/etc/nginx''\<rparr>"

section \<open>Notions used to state the properties of the tree builder\<close>

text \<open>A value as the elements it contributes to a merged list.\<close>

definition elements :: "jv \<Rightarrow> jv list" where
  "elements v = (case v of JArr xs \<Rightarrow> xs | w \<Rightarrow> [w])"

text \<open>
  The keys of the entries that \<open>toConf\<close> prints, over the whole tree: the key of every
  scalar entry and of every block, once per element for a list (a hole prints nothing),
  and the keys inside the blocks, at any depth. The lines of a \<open>_lua\<close> list are printed
  without their key. The functions follow \<open>entries_text\<close>, \<open>indexed_text\<close>,
  \<open>entry_text\<close> and \<open>elems_text\<close>.
\<close>

fun entries_keys :: "(string \<times> jv) list \<Rightarrow> string list"
  and indexed_keys :: "nat \<Rightarrow> jv list \<Rightarrow> string list"
  and entry_keys :: "string \<Rightarrow> jv \<Rightarrow> string list"
  and elems_keys :: "string \<Rightarrow> jv list \<Rightarrow> string list"
where
  "entries_keys [] = []"
| "entries_keys ((key, val) # rest) = entry_keys key val @ entries_keys rest"
| "indexed_keys i [] = []"
| "indexed_keys i (x # xs) =
     (if x = JUndefined then [] else entry_keys (show_nat i) x) @ indexed_keys (Suc i) xs"
| "entry_keys key (JArr xs) = (if key = ''_lua'' then [] else elems_keys key xs)"
| "entry_keys key (JObj kvs) = key # entries_keys kvs"
| "entry_keys key (JStr s) = [key]"
| "entry_keys key (JNum n) = [key]"
| "entry_keys key JUndefined = [key]"
| "entry_keys key (JFunction f) = [key]"
| "elems_keys key [] = []"
| "elems_keys key (JUndefined # rest) = elems_keys key rest"
| "elems_keys key (JObj kvs # rest) = key # entries_keys kvs @ elems_keys key rest"
| "elems_keys key (JArr ys # rest) = key # indexed_keys 0 ys @ elems_keys key rest"
| "elems_keys key (JStr s # rest) = key # elems_keys key rest"
| "elems_keys key (JNum n # rest) = key # elems_keys key rest"
| "elems_keys key (JFunction f # rest) = key # elems_keys key rest"




section \<open>Notions used to state the properties of extraction\<close>

text \<open>
  The directive names that \<open>parseLocation\<close> claims before its last test, in the order
  of its \<open>startsWith\<close> chain.
\<close>

definition recognized :: "string \<Rightarrow> bool" where
  "recognized directive \<longleftrightarrow>
     starts_with directive ''root '' \<or> starts_with directive ''index ''
     \<or> starts_with directive ''try_files '' \<or> starts_with directive ''proxy_pass ''
     \<or> starts_with directive ''fastcgi_pass '' \<or> starts_with directive ''proxy_cache_valid ''
     \<or> starts_with directive ''proxy_cache_key ''
     \<or> starts_with directive ''proxy_cache_use_stale ''
     \<or> starts_with directive ''limit_req ''
     \<or> starts_with directive ''add_header Access-Control-''"

text \<open>The passthrough list of a path rule: empty when \<open>extraDirectives\<close> is unset.\<close>

definition passthrough :: "Location \<Rightarrow> string list" where
  "passthrough loc = (case extraDirectives loc of None \<Rightarrow> [] | Some ds \<Rightarrow> ds)"

text \<open>
  What holds of every block that \<open>parseBlock\<close> builds: a string is only ever stored
  under \<open>_directives\<close>, so no block holds a string under the key \<open>location\<close>, and no
  list is empty. The three functions go through a block, a value and a list of values.
\<close>

fun text_value :: "pv \<Rightarrow> bool" where
  "text_value (PStr t) = True"
| "text_value w = False"

fun built_block :: "(string \<times> pv) list \<Rightarrow> bool"
  and built_value :: "pv \<Rightarrow> bool"
  and built_values :: "pv list \<Rightarrow> bool"
where
  "built_block [] = True"
| "built_block ((k, v) # rest) =
     ((k \<noteq> ''location'' \<or> \<not> text_value v) \<and> built_value v \<and> built_block rest)"
| "built_value (PBlock kvs) = built_block kvs"
| "built_value (PList xs) = (xs \<noteq> [] \<and> built_values xs)"
| "built_value (PStr t) = True"
| "built_value (PFunction f) = True"
| "built_values [] = True"
| "built_values (x # xs) = (built_value x \<and> built_values xs)"

text \<open>The configurations that \<open>convert\<close> returns, as a list.\<close>

definition configs_of :: "converted \<Rightarrow> ExtractedConfig list" where
  "configs_of r = (case r of Single c \<Rightarrow> [c] | Multiple cs \<Rightarrow> cs)"

section \<open>Sample schemas\<close>

text \<open>
  One upstream \<open>backend\<close> with two servers, the first with weight 3, and SSL with a
  forced redirect.
\<close>

definition example_schema :: NginxConfig where
  "example_schema = \<lparr>domain = ''api.example.com'', serverName = ''api.example.com'',
     port = Num 443,
     ssl = Some (empty_ssl\<lparr>certificate := Some ''/etc/ssl/api.crt'',
                   certificateKey := Some ''/etc/ssl/api.key'', forceRedirect := Some True\<rparr>),
     security = None, clientMaxBodySize = None,
     upstreams = Some [(''backend'',
        [\<lparr>address = ''10.0.0.1:8080'', weight = Some (Num 3), maxFails = None,
          failTimeout = None\<rparr>,
         \<lparr>address = ''10.0.0.2:8080'', weight = None, maxFails = None,
          failTimeout = None\<rparr>])],
     gzip = None, gzipTypes = None, microservices = None,
     locations = [(empty_location ''/'')\<lparr>root := Some ''/var/www''\<rparr>,
                  (empty_location ''/x'')\<lparr>extraDirectives := Some [''expires 30d'']\<rparr>]\<rparr>"

text \<open>A schema with one microservice route and no location of its own.\<close>

definition route_schema :: NginxConfig where
  "route_schema = \<lparr>domain = ''api.example.com'', serverName = ''api.example.com'',
     port = Num 80, ssl = None, security = None, clientMaxBodySize = None, upstreams = None,
     gzip = None, gzipTypes = None,
     microservices = Some [\<lparr>ms_path = ''/auth'', upstream = ''auth_service'', rewrite = None,
                             stripPath = None, ms_methods = None, ms_cors = None\<rparr>],
     locations = []\<rparr>"

text \<open>The first schema with the forced redirect switched off.\<close>

definition unforced_schema :: NginxConfig where
  "unforced_schema = example_schema\<lparr>ssl := Some (empty_ssl\<lparr>certificate := Some ''/etc/ssl/api.crt'',
       certificateKey := Some ''/etc/ssl/api.key'', forceRedirect := Some False\<rparr>)\<rparr>"

section \<open>Numbers as JavaScript computes and prints them\<close>

lemma dot_minus_one_values:
  "dot_minus_one 2 = ''-0.8'' \<and> dot_minus_one 3 = ''-0.7''
   \<and> dot_minus_one 7 = ''-0.30000000000000004'' \<and> dot_minus_one 10 = ''-0.9''"
  by code_simp

lemma show_number_values:
  "show_number (Num 443) = ''443'' \<and> show_number (Num (- 5)) = ''-5''
   \<and> show_number (Num 1000000000000000000000) = ''1e+21''"
  by code_simp

lemma parseInt_values:
  "parseInt ''443'' = Num 443 \<and> parseInt ''0x1F'' = Num 31 \<and> parseInt ''abc'' = NaN
   \<and> parseInt ''9007199254740993'' = Num 9007199254740992"
  by code_simp

section \<open>Path access\<close>

lemma js_get_object: "is_object v \<Longrightarrow> js_get v k = Inr (child_at v k)"
  by (cases v) simp_all

lemma inherited_object_leaf: "\<not> is_object (inherited_object k)"
  by (simp add: inherited_object_def)

lemma inherited_array_leaf: "\<not> is_object (inherited_array k)"
  by (simp add: inherited_array_def inherited_object_def)

lemma child_at_not_own: "\<not> has_own v k \<Longrightarrow> \<not> is_object (child_at v k)"
proof (cases v)
  case (JObj kvs)
  assume "\<not> has_own v k"
  with JObj have "map_of kvs k = None"
    by (simp add: map_of_eq_None_iff)
  with JObj show ?thesis by (simp add: inherited_object_leaf)
next
  case (JArr xs)
  assume "\<not> has_own v k"
  with JArr show ?thesis by (auto simp: inherited_array_leaf split: option.splits)
qed simp_all

lemma inherited_object_plain: "k \<notin> set object_prototype \<Longrightarrow> inherited_object k = JUndefined"
proof -
  assume plain: "k \<notin> set object_prototype"
  have "''constructor'' \<in> set object_prototype"
    by (simp add: object_prototype_def)
  with plain have "k \<noteq> ''constructor''" by blast
  with plain show ?thesis by (simp only: inherited_object_def if_False)
qed

lemma inherited_array_plain: "plain_name k \<Longrightarrow> inherited_array k = JUndefined"
proof -
  assume "plain_name k"
  then have obj: "k \<notin> set object_prototype" and arr: "k \<notin> set array_prototype"
    by (simp_all add: plain_name_def)
  have "''constructor'' \<in> set object_prototype"
    by (simp add: object_prototype_def)
  with obj have "k \<noteq> ''constructor''" by blast
  with arr have "inherited_array k = inherited_object k"
    by (simp only: inherited_array_def if_False)
  also from obj have "inherited_object k = JUndefined" by (rule inherited_object_plain)
  finally show ?thesis .
qed

lemma child_at_plain: "\<not> has_own v k \<Longrightarrow> plain_name k \<Longrightarrow> child_at v k = JUndefined"
proof (cases v)
  case (JObj kvs)
  assume "\<not> has_own v k" and plain: "plain_name k"
  with JObj have "map_of kvs k = None"
    by (simp add: map_of_eq_None_iff)
  moreover from plain have "inherited_object k = JUndefined"
    by (simp add: plain_name_def inherited_object_plain)
  ultimately show ?thesis using JObj by simp
next
  case (JArr xs)
  assume own: "\<not> has_own v k" and "plain_name k"
  then have "inherited_array k = JUndefined" by (simp only: inherited_array_plain)
  with JArr own show ?thesis by (auto split: option.splits)
qed simp_all

lemma has_own_object: "has_own v k \<Longrightarrow> is_object v"
  by (cases v) simp_all

lemma resolve_step_object:
  "is_object v \<Longrightarrow> resolve_step (Inr v) c = Inr (child_at v (unsafeKey c))"
  by (simp add: resolve_step_def js_get_object)

lemma resolve_step_other: "\<not> is_object v \<Longrightarrow> resolve_step (Inr v) c = Inr JUndefined"
  by (simp add: resolve_step_def)

lemma resolve_from_undefined: "foldl resolve_step (Inr JUndefined) cs = Inr JUndefined"
  by (induction cs) (simp_all add: resolve_step_other)

text \<open>\<open>resolve\<close> returns a value, for every tree and every path: it never throws.\<close>

lemma resolve_total: "\<exists>w. foldl resolve_step (Inr v) cs = Inr w"
proof (induction cs arbitrary: v)
  case Nil
  show ?case by simp
next
  case (Cons c cs)
  show ?case
  proof (cases "is_object v")
    case True
    then show ?thesis using Cons [of "child_at v (unsafeKey c)"]
      by (simp add: resolve_step_object)
  next
    case False
    then show ?thesis by (simp add: resolve_step_other resolve_from_undefined)
  qed
qed

text \<open>
  On a path that does not exist \<open>resolve\<close> returns \<open>undefined\<close>, provided that no
  segment is a name that objects or arrays inherit.
\<close>

lemma resolve_missing:
  "\<not> path_exists v cs \<Longrightarrow> \<forall>c \<in> set cs. plain_name (unsafeKey c) \<Longrightarrow>
   foldl resolve_step (Inr v) cs = Inr JUndefined"
proof (induction cs arbitrary: v)
  case Nil
  then show ?case by simp
next
  case (Cons c cs)
  show ?case
  proof (cases "is_object v")
    case False
    then show ?thesis by (simp add: resolve_step_other resolve_from_undefined)
  next
    case True
    show ?thesis
    proof (cases "has_own v (unsafeKey c)")
      case False
      with Cons.prems(2) have "child_at v (unsafeKey c) = JUndefined"
        by (simp add: child_at_plain)
      with True show ?thesis
        by (simp add: resolve_step_object resolve_from_undefined)
    next
      case own: True
      with Cons.prems have "\<not> path_exists (child_at v (unsafeKey c)) cs"
        and "\<forall>c \<in> set cs. plain_name (unsafeKey c)"
        by simp_all
      from Cons.IH [OF this] True show ?thesis
        by (simp add: resolve_step_object)
    qed
  qed
qed

text \<open>
  \<open>resolveSet\<close> through a path whose intermediate segments do not exist returns
  \<open>false\<close> and leaves the tree as it was: what an inherited name leads to is a function,
  which the loop does not enter. (On Deno this holds of \<open>__proto__\<close> as of any other
  name; the proof makes no use of the second premise, which keeps the statement to the
  paths where every runtime agrees.)
\<close>

lemma resolveSet_missing:
  "\<not> path_exists v (butlast cs) \<Longrightarrow> \<forall>c \<in> set (butlast cs). unsafeKey c \<noteq> ''__proto__'' \<Longrightarrow>
   resolveSet_loop v cs val = Inr (False, v)"
proof (induction cs arbitrary: v)
  case Nil
  then show ?case by simp
next
  case (Cons c cs)
  from Cons.prems(1) have ne: "cs \<noteq> []" by (cases cs) auto
  show ?case
  proof (cases "is_object v")
    case False
    then show ?thesis by simp
  next
    case True
    show ?thesis
    proof (cases "has_own v (unsafeKey c)")
      case False
      then have "\<not> is_object (child_at v (unsafeKey c))" by (rule child_at_not_own)
      with True ne show ?thesis
        by (cases cs) (simp_all add: js_get_object)
    next
      case own: True
      with Cons.prems ne have "\<not> path_exists (child_at v (unsafeKey c)) (butlast cs)"
        and "\<forall>c \<in> set (butlast cs). unsafeKey c \<noteq> ''__proto__''"
        by simp_all
      from Cons.IH [OF this] True ne show ?thesis
        by (simp add: js_get_object)
    qed
  qed
qed

text \<open>
  C5. Path-based get on a path that does not exist in the tree should return the
  not-found result, \<open>undefined\<close>. For the tree \<open>{a: 'x'}\<close> and the path \<open>constructor\<close>,
  which does not exist in the tree, \<open>resolve\<close> returns the built-in function \<open>Object\<close>:
  \<open>prev[key]\<close> also reads what the object inherits. In the same way the path \<open>a.push\<close>
  leads to a function when \<open>a\<close> holds a list. \<open>toJSON\<close> reaches such paths through
  directive names: the one directive \<open>constructor x;\<close> is stored as a list of that
  function and \<open>x\<close>.
\<close>

theorem C5_inherited_name_found:
  "resolve (JObj [(''a'', JStr ''x'')]) ''constructor'' = Inr (JFunction ''Object'')
   \<and> \<not> path_exists (JObj [(''a'', JStr ''x'')]) (split_on (CHR ''.'') ''constructor'')
   \<and> resolve (JObj [(''a'', JArr [JStr ''x'', JStr ''y''])]) ''a.push''
     = Inr (JFunction ''push'')
   \<and> \<not> path_exists (JObj [(''a'', JArr [JStr ''x'', JStr ''y''])])
         (split_on (CHR ''.'') ''a.push'')
   \<and> toJSON ''constructor x;'' no_includes
     = Inr (JObj [(''constructor'', JArr [JFunction ''Object'', JStr ''x''])])"
  by code_simp

section \<open>The round trip through \<open>toConf\<close> and \<open>toJSON\<close>\<close>

text \<open>
  C1. The round trip \<open>Parse(Serialize(tree)) = tree\<close>, for a tree produced by \<open>Parse\<close>
  with include resolution disabled, fails for the two-line text
  \<open>location /\<close>, \<open>{ return 200; }\<close>: the scanner does not split before a brace at the
  start of a line, so the tree holds the scalar \<open>/ { return 200\<close> under \<open>location\<close>;
  its serialization is parsed back as a block \<open>location    /\<close> with a \<open>return\<close> entry.
\<close>

theorem C1_round_trip_fails:
  "toJSON (''location /'' @ [nl] @ ''{ return 200; }'') no_includes
     = Inr (JObj [(''location'', JStr ''/ { return 200'')])
   \<and> toConf (JObj [(''location'', JStr ''/ { return 200'')])
     = ''location    / { return 200;'' @ [nl]
   \<and> toJSON (toConf (JObj [(''location'', JStr ''/ { return 200'')])) no_includes
     = Inr (JObj [(''location    /'', JObj [(''return'', JStr ''200'')])])
   \<and> toJSON (toConf (JObj [(''location'', JStr ''/ { return 200'')])) no_includes
     \<noteq> Inr (JObj [(''location'', JStr ''/ { return 200'')])"
  by code_simp

section \<open>Collision promotion\<close>

text \<open>
  What \<open>resolveSet\<close> stores at a path, \<open>resolve\<close> reads back from it; and where a value
  exists at the path already, \<open>resolveAppendSet\<close> stores the list of the old elements
  followed by the new ones, never a list inside a list.
\<close>

lemma map_of_update_present:
  "map_of kvs k \<noteq> None \<Longrightarrow>
   map_of (map (\<lambda>(k', v'). if k' = k then (k', v) else (k', v')) kvs) k = Some v"
  by (induction kvs) (auto split: if_splits)

lemma map_of_insert_index:
  "map_of kvs k = None \<Longrightarrow> map_of (insert_index i k v kvs) k = Some v"
  by (induction kvs) (auto split: option.splits if_splits)

lemma map_of_obj_set: "map_of (obj_set kvs k v) k = Some v"
proof (cases "map_of kvs k")
  case None
  then show ?thesis
    by (auto simp: obj_set_def map_of_insert_index map_add_def split: option.splits)
next
  case (Some w)
  then show ?thesis
    by (simp add: obj_set_def map_of_update_present)
qed

lemma get_after_put:
  "js_put v k x = Inr v' \<Longrightarrow> is_object v' \<and> child_at v' k = x"
proof (cases v)
  case (JObj kvs)
  assume "js_put v k x = Inr v'"
  with JObj show ?thesis by (auto simp: map_of_obj_set)
next
  case (JArr xs)
  assume "js_put v k x = Inr v'"
  with JArr show ?thesis
    by (auto simp: nth_append split: option.splits if_splits)
qed auto

lemma get_after_write_back:
  "is_object (child_at v k) \<Longrightarrow> is_object (write_back v k w) \<and> child_at (write_back v k w) k = w"
proof (cases v)
  case (JObj kvs)
  assume "is_object (child_at v k)"
  with JObj have "map_of kvs k \<noteq> None"
    by (auto simp: inherited_object_leaf split: option.splits)
  with JObj show ?thesis by (simp add: map_of_update_present)
next
  case (JArr xs)
  assume "is_object (child_at v k)"
  with JArr show ?thesis
    by (auto simp: inherited_array_leaf split: option.splits if_splits)
qed auto

lemma resolveSet_loop_object:
  "resolveSet_loop v (c # cs) x = Inr (True, v') \<Longrightarrow> is_object v"
  by (auto split: if_splits)

lemma resolve_after_resolveSet:
  "resolveSet_loop v cs x = Inr (True, v') \<Longrightarrow> foldl resolve_step (Inr v') cs = Inr x"
proof (induction cs arbitrary: v v')
  case Nil
  then show ?case by simp
next
  case (Cons c cs)
  from Cons.prems have obj: "is_object v" by (rule resolveSet_loop_object)
  show ?case
  proof (cases "cs = []")
    case True
    with Cons.prems obj have "js_put v (unsafeKey c) x = Inr v'"
      by (auto split: sum.splits)
    then have "is_object v' \<and> child_at v' (unsafeKey c) = x" by (rule get_after_put)
    with True show ?thesis by (simp add: resolve_step_object)
  next
    case False
    then obtain d ds where ds: "cs = d # ds" by (cases cs) auto
    from Cons.prems obj False obtain child' where
      sub: "resolveSet_loop (child_at v (unsafeKey c)) cs x = Inr (True, child')"
      and v': "v' = write_back v (unsafeKey c) child'"
      by (auto simp: js_get_object split: sum.splits prod.splits if_splits)
    from sub have "is_object (child_at v (unsafeKey c))"
      unfolding ds by (rule resolveSet_loop_object)
    then have "is_object v' \<and> child_at v' (unsafeKey c) = child'"
      unfolding v' by (rule get_after_write_back)
    with Cons.IH [OF sub] show ?thesis by (simp add: resolve_step_object)
  qed
qed

lemma resolveSet_succeeds:
  "foldl resolve_step (Inr v) cs = Inr e \<Longrightarrow> e \<noteq> JUndefined \<Longrightarrow> cs \<noteq> [] \<Longrightarrow>
   resolveSet_loop v cs x = Inr (ok, v') \<Longrightarrow> ok"
proof (induction cs arbitrary: v v')
  case Nil
  then show ?case by simp
next
  case (Cons c cs)
  have obj: "is_object v"
  proof (rule ccontr)
    assume "\<not> is_object v"
    with Cons.prems(1) have "e = JUndefined"
      by (simp add: resolve_step_other resolve_from_undefined)
    with Cons.prems(2) show False by simp
  qed
  show ?case
  proof (cases "cs = []")
    case True
    with Cons.prems(4) obj show ?thesis by (auto split: sum.splits)
  next
    case False
    from Cons.prems(1) obj have r: "foldl resolve_step (Inr (child_at v (unsafeKey c))) cs = Inr e"
      by (simp add: resolve_step_object)
    from Cons.prems(4) obj False obtain child' where
      "resolveSet_loop (child_at v (unsafeKey c)) cs x = Inr (ok, child')"
      by (auto simp: js_get_object split: sum.splits prod.splits if_splits)
    from Cons.IH [OF r Cons.prems(2) False this] show ?thesis .
  qed
qed

lemma split_on_nonempty: "split_on c s \<noteq> []"
  by (induction s) (auto split: list.splits)

lemma promotion_appends:
  assumes "resolve tree key = Inr existing" and "existing \<noteq> JUndefined"
    and "resolveAppendSet tree key val = Inr (b, tree')"
  shows "b \<and> resolve tree' key = Inr (JArr (elements existing @ elements val))"
proof -
  let ?merged = "JArr (elements existing @ elements val)"
  from assms obtain ok where
    set: "resolveSet_loop tree (split_on (CHR ''.'') key) ?merged = Inr (ok, tree')" and b: "b"
    by (auto simp: resolveAppendSet_def resolveSet_def Let_def elements_def
        split: sum.splits prod.splits)
  from assms(1) have "foldl resolve_step (Inr tree) (split_on (CHR ''.'') key) = Inr existing"
    by (simp add: resolve_def)
  from resolveSet_succeeds [OF this assms(2) split_on_nonempty set] have ok .
  with set have "resolveSet_loop tree (split_on (CHR ''.'') key) ?merged = Inr (True, tree')"
    by simp
  from resolve_after_resolveSet [OF this] b show ?thesis
    by (simp add: resolve_def)
qed

text \<open>
  C2. Two sibling directives with the same key should give a list of length 2 at that key.
  Inside the second of two blocks with the same name they give nothing: after the merge
  of the second \<open>server\<close> block the parent path is \<open>server-0.8\<close> instead of
  \<open>server.1\<close> (line 192), so neither \<open>listen\<close> directive is stored and the second block
  stays empty. Two sibling \<open>server\<close> blocks give a list of length 2 whose second
  element is empty: the content of the second block is lost in the same way. In a block
  that is not repeated sibling directives are promoted as claimed: three of them give one
  list of length 3 (and \<open>promotion_appends\<close> above is the promotion itself, at any path).
\<close>

theorem C2_siblings_in_repeated_block_lost:
  "toJSON (''server {'' @ [nl] @ ''}'' @ [nl] @ ''server {'' @ [nl] @ ''listen 80;'' @ [nl]
           @ ''listen 81;'' @ [nl] @ ''}'') no_includes
     = Inr (JObj [(''server'', JArr [JObj [], JObj []])])
   \<and> toJSON (''server {'' @ [nl] @ ''listen 80;'' @ [nl] @ ''}'' @ [nl]
             @ ''server {'' @ [nl] @ ''listen 81;'' @ [nl] @ ''}'') no_includes
     = Inr (JObj [(''server'', JArr [JObj [(''listen'', JStr ''80'')], JObj []])])
   \<and> dot_minus_one 2 = ''-0.8''
   \<and> toJSON (''server {'' @ [nl] @ ''listen 80;'' @ [nl] @ ''listen 81;'' @ [nl]
             @ ''listen 82;'' @ [nl] @ ''}'') no_includes
     = Inr (JObj [(''server'',
              JObj [(''listen'', JArr [JStr ''80'', JStr ''81'', JStr ''82''])])])"
  by code_simp

section \<open>Include resolution\<close>

text \<open>
  C3. For the root text \<open>include conf.d/*.conf;\<close>, with two matching files that each
  define one \<open>server\<close> block, the tree that \<open>toJSON\<close> returns is empty: it has no
  \<open>server\<close> key. The call of \<open>handleInclude\<close> is still pending then; run on, it would
  store the two blocks as a list in glob order.
\<close>

theorem C3_include_not_merged_on_return:
  "toJSON ''include conf.d/*.conf;'' default_options = Inr (JObj [])
   \<and> toJSON_pending ''include conf.d/*.conf;'' default_options
     = [\<lparr>call_line = ''include conf.d/*.conf;'', call_parent = []\<rparr>]
   \<and> handleInclude_rest two_servers None default_options
        \<lparr>call_line = ''include conf.d/*.conf;'', call_parent = []\<rparr> (JObj [])
     = Inr (JObj [(''server'', JArr [JObj [(''listen'', JStr ''80'')],
                                       JObj [(''listen'', JStr ''81'')]])])"
  by code_simp

subsection \<open>No error of \<open>toJSON\<close> is an include error\<close>

lemma js_get_error: "js_get v k = Inl e \<Longrightarrow> e \<noteq> IncludeResolutionError"
  by (cases v) auto

lemma js_put_error: "js_put v k x = Inl e \<Longrightarrow> e \<noteq> IncludeResolutionError"
  by (cases v) (auto split: option.splits)

lemma resolve_no_error: "resolve tree p \<noteq> Inl e"
  using resolve_total [of tree "split_on (CHR ''.'') p"] by (auto simp: resolve_def)

lemma resolveSet_loop_error:
  "resolveSet_loop v cs x = Inl e \<Longrightarrow> e \<noteq> IncludeResolutionError"
proof (induction cs arbitrary: v)
  case Nil
  then show ?case by simp
next
  case (Cons c cs)
  then show ?case
    by (auto split: if_splits sum.splits prod.splits dest: js_get_error js_put_error)
qed

lemma resolveAppendSet_error:
  "resolveAppendSet tree key val = Inl e \<Longrightarrow> e \<noteq> IncludeResolutionError"
  by (auto simp: resolveAppendSet_def resolveSet_def Let_def resolve_no_error
      split: sum.splits prod.splits dest: resolveSet_loop_error)

lemma appendValue_error:
  "appendValue tree key val p = Inl e \<Longrightarrow> e \<noteq> IncludeResolutionError"
  by (auto simp: appendValue_def split: option.splits if_splits dest: resolveAppendSet_error)

lemma length_suffix_error: "length_suffix v = Inl e \<Longrightarrow> e \<noteq> IncludeResolutionError"
  by (cases v) auto

lemma open_block_error: "open_block st line = Inl e \<Longrightarrow> e \<noteq> IncludeResolutionError"
  by (auto simp: open_block_def Let_def resolve_no_error
      split: sum.splits prod.splits if_splits dest: appendValue_error length_suffix_error)

lemma inner_line_error: "inner_line options st line = Inl e \<Longrightarrow> e \<noteq> IncludeResolutionError"
  by (auto simp: inner_line_def Let_def handlePropertyLine_def handleClosingBrace_def
      split: sum.splits prod.splits if_splits option.splits
      dest: appendValue_error open_block_error)

lemma for_each_error:
  "(\<And>st x e. f st x = Inl e \<Longrightarrow> e \<noteq> bad) \<Longrightarrow> for_each f xs st = Inl e \<Longrightarrow> e \<noteq> bad"
  by (induction xs arbitrary: st) (auto split: sum.splits)

lemma inner_lines_error:
  assumes "for_each (inner_line options) xs st = Inl e"
  shows "e \<noteq> IncludeResolutionError"
  using inner_line_error assms by (rule for_each_error)

lemma outer_line_error: "outer_line options st line = Inl e \<Longrightarrow> e \<noteq> IncludeResolutionError"
  by (auto simp: outer_line_def Let_def split: if_splits dest: inner_lines_error)

lemma outer_lines_error:
  assumes "for_each (outer_line options) xs st = Inl e"
  shows "e \<noteq> IncludeResolutionError"
  using outer_line_error assms by (rule for_each_error)

lemma toJSON_never_include_error: "toJSON conf options \<noteq> Inl IncludeResolutionError"
  by (auto simp: toJSON_def toJSON_run_def split: sum.splits dest: outer_lines_error)

text \<open>
  C4. For the root text \<open>include missing/*.conf;\<close>, with no matching file and
  \<open>ignoreIncludeErrors\<close> unset, \<open>toJSON\<close> returns the empty tree: its caller observes no
  error. The \<open>IncludeResolutionError\<close> is the rejection of the promise that \<open>toJSON\<close>
  dropped (with \<open>ignoreIncludeErrors\<close> set that promise is fulfilled instead). For no text
  and no options does \<open>toJSON\<close> fail with that error.
\<close>

theorem C4_unresolved_include_not_observed:
  "toJSON ''include missing/*.conf;'' default_options = Inr (JObj [])
   \<and> handleInclude_rest no_files None default_options
        \<lparr>call_line = ''include missing/*.conf;'', call_parent = []\<rparr> (JObj [])
     = Inl IncludeResolutionError
   \<and> handleInclude_rest no_files None (default_options\<lparr>ignoreIncludeErrors := True\<rparr>)
        \<lparr>call_line = ''include missing/*.conf;'', call_parent = []\<rparr> (JObj [])
     = Inr (JObj [])
   \<and> (\<forall>conf options. toJSON conf options \<noteq> Inl IncludeResolutionError)"
proof (intro conjI allI)
  show "handleInclude_rest no_files None (default_options\<lparr>ignoreIncludeErrors := True\<rparr>)
        \<lparr>call_line = ''include missing/*.conf;'', call_parent = []\<rparr> (JObj [])
     = Inr (JObj [])"
    by code_simp
  show "toJSON ''include missing/*.conf;'' default_options = Inr (JObj [])"
    by code_simp
  show "handleInclude_rest no_files None default_options
        \<lparr>call_line = ''include missing/*.conf;'', call_parent = []\<rparr> (JObj [])
     = Inl IncludeResolutionError"
    by code_simp
  show "toJSON conf options \<noteq> Inl IncludeResolutionError" for conf options
    by (rule toJSON_never_include_error)
qed

section \<open>Keys in the serialized text\<close>

subsection \<open>What \<open>trim\<close> keeps\<close>












subsection \<open>Every printed key is in the text\<close>




subsection \<open>Which keys are printed\<close>

text \<open>
  \<open>printed_keys\<close> holds the key of every entry of an object that is not a list, the
  key of every list other than \<open>_lua\<close> that has an element, and the printed keys of
  every block inside, directly or in a list.
\<close>

lemma entry_key_printed:
  "(key, v) \<in> set kvs \<Longrightarrow> \<forall>xs. v \<noteq> JArr xs \<Longrightarrow> key \<in> set (entries_keys kvs)"
proof (induction kvs)
  case Nil
  then show ?case by simp
next
  case (Cons kv kvs)
  obtain k w where kv: "kv = (k, w)" by (cases kv)
  show ?case
  proof (cases "(key, v) = kv")
    case True
    with kv Cons.prems(2) show ?thesis by (cases v) auto
  next
    case False
    with Cons kv show ?thesis by auto
  qed
qed

lemma elem_key_printed:
  "x \<in> set xs \<Longrightarrow> x \<noteq> JUndefined \<Longrightarrow> key \<in> set (elems_keys key xs)"
proof (induction xs)
  case Nil
  then show ?case by simp
next
  case (Cons y ys)
  then show ?case by (cases y) auto
qed

lemma list_key_printed:
  "(key, JArr xs) \<in> set kvs \<Longrightarrow> key \<noteq> ''_lua'' \<Longrightarrow> x \<in> set xs \<Longrightarrow> x \<noteq> JUndefined \<Longrightarrow>
   key \<in> set (entries_keys kvs)"
proof (induction kvs)
  case Nil
  then show ?case by simp
next
  case (Cons kv kvs)
  obtain k w where kv: "kv = (k, w)" by (cases kv)
  show ?case
  proof (cases "(key, JArr xs) = kv")
    case True
    with kv Cons.prems show ?thesis by (auto simp: elem_key_printed)
  next
    case False
    with Cons kv show ?thesis by auto
  qed
qed

lemma block_keys_printed:
  "(key, JObj sub) \<in> set kvs \<Longrightarrow> k \<in> set (entries_keys sub) \<Longrightarrow> k \<in> set (entries_keys kvs)"
proof (induction kvs)
  case Nil
  then show ?case by simp
next
  case (Cons kv kvs)
  obtain k' w where kv: "kv = (k', w)" by (cases kv)
  show ?case
  proof (cases "(key, JObj sub) = kv")
    case True
    with kv Cons.prems show ?thesis by auto
  next
    case False
    with Cons kv show ?thesis by auto
  qed
qed

lemma elem_block_keys_printed:
  "JObj sub \<in> set xs \<Longrightarrow> k \<in> set (entries_keys sub) \<Longrightarrow> k \<in> set (elems_keys key xs)"
proof (induction xs)
  case Nil
  then show ?case by simp
next
  case (Cons y ys)
  then show ?case by (cases y) auto
qed

lemma list_block_keys_printed:
  "(key, JArr xs) \<in> set kvs \<Longrightarrow> key \<noteq> ''_lua'' \<Longrightarrow> JObj sub \<in> set xs \<Longrightarrow>
   k \<in> set (entries_keys sub) \<Longrightarrow> k \<in> set (entries_keys kvs)"
proof (induction kvs)
  case Nil
  then show ?case by simp
next
  case (Cons kv kvs)
  obtain k' w where kv: "kv = (k', w)" by (cases kv)
  show ?case
  proof (cases "(key, JArr xs) = kv")
    case True
    with kv Cons.prems show ?thesis by (auto simp: elem_block_keys_printed)
  next
    case False
    with Cons kv show ?thesis by auto
  qed
qed

subsection \<open>Keys are unescaped when they are stored\<close>









section \<open>Extraction\<close>

text \<open>
  C7. The server block with exactly the directives \<open>server_name api.example.com\<close>,
  \<open>listen 443 ssl\<close>, \<open>ssl_certificate /etc/ssl/api.crt\<close> and
  \<open>ssl_certificate_key /etc/ssl/api.key\<close> is extracted to a schema with domain
  \<open>api.example.com\<close>, port 443 and an SSL facet in which both paths are set and the
  protocols and ciphers are unset. The block is the one the block parser builds from the
  text, and \<open>convert\<close> gives the same schema from the text.
\<close>

theorem C7_extraction_example:
  "parse_blocks ''server { server_name api.example.com; listen 443 ssl; ssl_certificate /etc/ssl/api.crt; ssl_certificate_key /etc/ssl/api.key; }''
     = [(''server'', PBlock [(''_directives'',
          PList [PStr ''server_name api.example.com'', PStr ''listen 443 ssl'',
                 PStr ''ssl_certificate /etc/ssl/api.crt'',
                 PStr ''ssl_certificate_key /etc/ssl/api.key''])])]
   \<and> parseServer (PBlock [(''_directives'',
          PList [PStr ''server_name api.example.com'', PStr ''listen 443 ssl'',
                 PStr ''ssl_certificate /etc/ssl/api.crt'',
                 PStr ''ssl_certificate_key /etc/ssl/api.key''])])
     = Inr (empty_config\<lparr>x_serverName := Some ''api.example.com'',
              x_domain := Some ''api.example.com'', x_port := Some (Num 443),
              x_ssl := Some (empty_ssl\<lparr>certificate := Some ''/etc/ssl/api.crt'',
                               certificateKey := Some ''/etc/ssl/api.key''\<rparr>)\<rparr>)
   \<and> protocols (empty_ssl\<lparr>certificate := Some ''/etc/ssl/api.crt'',
                               certificateKey := Some ''/etc/ssl/api.key''\<rparr>) = None
   \<and> ciphers (empty_ssl\<lparr>certificate := Some ''/etc/ssl/api.crt'',
                               certificateKey := Some ''/etc/ssl/api.key''\<rparr>) = None
   \<and> convert ''server { server_name api.example.com; listen 443 ssl; ssl_certificate /etc/ssl/api.crt; ssl_certificate_key /etc/ssl/api.key; }''
     = Inr (Single (empty_config\<lparr>x_serverName := Some ''api.example.com'',
              x_domain := Some ''api.example.com'', x_port := Some (Num 443),
              x_ssl := Some (empty_ssl\<lparr>certificate := Some ''/etc/ssl/api.crt'',
                               certificateKey := Some ''/etc/ssl/api.key''\<rparr>)\<rparr>))"
  by code_simp

subsection \<open>Location blocks\<close>

text \<open>
  \<open>parseBlock\<close> keeps what it builds within \<open>built_block\<close>, and a block within
  \<open>built_block\<close> has no string under \<open>location\<close>, which \<open>parseLocation\<close> needs for
  the path: \<open>parseLocation\<close> fails on it. So for every text, the configurations that
  \<open>convert\<close> returns have no list of locations.
\<close>

lemma built_map_of:
  "built_block kvs \<Longrightarrow> map_of kvs k = Some v \<Longrightarrow>
   built_value v \<and> (k \<noteq> ''location'' \<or> \<not> text_value v)"
  by (induction kvs) (auto split: if_splits)

lemma built_update:
  "built_block kvs \<Longrightarrow> built_value v \<Longrightarrow> k \<noteq> ''location'' \<or> \<not> text_value v \<Longrightarrow>
   built_block (map (\<lambda>(k', v'). if k' = k then (k', v) else (k', v')) kvs)"
  by (induction kvs) auto

lemma built_insert_index:
  "built_block kvs \<Longrightarrow> built_value v \<Longrightarrow> k \<noteq> ''location'' \<or> \<not> text_value v \<Longrightarrow>
   built_block (insert_index i k v kvs)"
  by (induction kvs) (auto split: option.splits)

lemma built_append:
  "built_block kvs \<Longrightarrow> built_value v \<Longrightarrow> k \<noteq> ''location'' \<or> \<not> text_value v \<Longrightarrow>
   built_block (kvs @ [(k, v)])"
  by (induction kvs) auto

lemma built_obj_set:
  "built_block kvs \<Longrightarrow> built_value v \<Longrightarrow> k \<noteq> ''location'' \<or> \<not> text_value v \<Longrightarrow>
   built_block (obj_set kvs k v)"
  unfolding obj_set_def
  by (simp add: built_update built_insert_index built_append split: option.splits)

lemma built_values_append: "built_values (xs @ [v]) = (built_values xs \<and> built_value v)"
  by (induction xs) auto

lemma built_push_or_set:
  assumes "built_block result" and "built_value v" and "k \<noteq> ''location'' \<or> \<not> text_value v"
  shows "built_block (push_or_set result k v)"
proof (cases "map_of result k")
  case None
  show ?thesis
  proof (cases "inherited_object k")
    case (JFunction f)
    with None assms show ?thesis
      by (simp add: push_or_set_def built_obj_set)
  qed (use None assms in \<open>simp_all add: push_or_set_def built_obj_set\<close>)
next
  case (Some w)
  with assms(1) have w: "built_value w" by (auto dest: built_map_of)
  show ?thesis
  proof (cases w)
    case (PList xs)
    with Some w assms show ?thesis
      by (simp add: push_or_set_def built_obj_set built_values_append)
  qed (use Some w assms in \<open>simp_all add: push_or_set_def built_obj_set\<close>)
qed

lemma parseBlock_built:
  "key = None \<Longrightarrow> built_block result \<Longrightarrow>
   built_block (fst (parseBlock_loop result buffer key rest))"
proof (induction result buffer key rest rule: parseBlock_loop.induct)
  case (1 result buffer key)
  then show ?case by simp
next
  case (2 result buffer key c cs)
  note none = "2.prems"(1) and built = "2.prems"(2)
  show ?case
  proof (cases "c = CHR ''{''")
    case True
    obtain nested after where sub: "parseBlock_loop [] [] None cs = (nested, after)"
      by (cases "parseBlock_loop [] [] None cs")
    from "2.IH"(1) [OF True] have "built_block (fst (parseBlock_loop [] [] None cs))" by simp
    with sub have nested: "built_value (PBlock nested)" by simp
    let ?k = "key_name (if key = None \<and> buffer \<noteq> [] then Some (trim buffer) else key)"
    from nested built have "built_block (push_or_set result ?k (PBlock nested))"
      by (intro built_push_or_set) simp_all
    from "2.IH"(2) [OF True sub [symmetric] refl this] True sub show ?thesis
      by simp
  next
    case False
    show ?thesis
    proof (cases "c = CHR ''}''")
      case True
      with False none built show ?thesis
        by (auto intro!: built_push_or_set)
    next
      case close: False
      show ?thesis
      proof (cases "c = CHR '';''")
        case True
        have "built_block (if trim buffer \<noteq> []
           then push_or_set result (case key of None \<Rightarrow> ''_directives'' | Some k \<Rightarrow> k)
                  (PStr (trim buffer))
           else result)"
          using none built by (auto intro!: built_push_or_set)
        from "2.IH"(3) [OF False close True refl this] False close True show ?thesis
          by simp
      next
        case other: False
        from "2.IH"(4) [OF False close other none built] False close other show ?thesis
          by simp
      qed
    qed
  qed
qed

lemma parse_blocks_built: "built_block (parse_blocks configText)"
  unfolding parse_blocks_def by (rule parseBlock_built) simp_all

lemma parseLocation_built: "built_value loc \<Longrightarrow> parseLocation loc = Inl TypeError"
proof (cases loc)
  case (PBlock block)
  assume "built_value loc"
  with PBlock have built: "built_block block" by simp
  show ?thesis
  proof (cases "map_of block ''location''")
    case None
    with PBlock show ?thesis by (simp add: parseLocation_def)
  next
    case (Some v)
    with built have "\<not> text_value v" by (auto dest: built_map_of)
    with PBlock Some show ?thesis by (cases v) (simp_all add: parseLocation_def)
  qed
qed (simp_all add: parseLocation_def)

lemma map_locations_built:
  "built_values locs \<Longrightarrow> locs \<noteq> [] \<Longrightarrow> map_locations locs = Inl TypeError"
  by (cases locs) (simp_all add: parseLocation_built)

lemma server_directive_locations:
  "server_directive config d = Inr config' \<Longrightarrow> x_locations config' = x_locations config"
  by (auto simp: server_directive_def Let_def split: if_splits option.splits)

lemma server_loop_locations:
  "for_each (on_string server_directive) ds config = Inr config' \<Longrightarrow>
   x_locations config' = x_locations config"
proof (induction ds arbitrary: config)
  case Nil
  then show ?case by simp
next
  case (Cons d ds)
  then show ?case
    by (auto simp: on_string_def split: sum.splits pv.splits dest: server_directive_locations)
qed

lemma parseServer_built:
  assumes "built_value server" and "parseServer server = Inr config"
  shows "x_locations config = None"
proof (cases server)
  case (PBlock block)
  with assms(1) have built: "built_block block" by simp
  show ?thesis
  proof (cases "directives_of block")
    case None
    with PBlock assms(2) show ?thesis by (auto simp: parseServer_def empty_config_def)
  next
    case (Some directives)
    show ?thesis
    proof (cases "for_each (on_string server_directive) directives empty_config")
      case (Inl e)
      with PBlock Some assms(2) show ?thesis by (simp add: parseServer_def)
    next
      case c1: (Inr config1)
      then have l1: "x_locations config1 = None"
        by (auto dest: server_loop_locations simp: empty_config_def)
      show ?thesis
      proof (cases "ssl_directives directives")
        case (Inl e)
        with PBlock Some c1 assms(2) show ?thesis by (simp add: parseServer_def)
      next
        case s: (Inr sslDirectives)
        show ?thesis
        proof (cases "if sslDirectives \<noteq> []
                      then (case parseSSLConfig sslDirectives of
                              Inl e \<Rightarrow> Inl e
                            | Inr sslConfig \<Rightarrow> Inr (config1\<lparr>x_ssl := Some sslConfig\<rparr>))
                      else Inr config1")
          case (Inl e)
          with PBlock Some c1 s assms(2) show ?thesis by (simp add: parseServer_def)
        next
          case c2: (Inr config2)
          with l1 have l2: "x_locations config2 = None"
            by (auto split: if_splits sum.splits)
          show ?thesis
          proof (cases "for_each (on_string security_directive) directives empty_security")
            case (Inl e)
            with PBlock Some c1 s c2 assms(2) show ?thesis by (simp add: parseServer_def)
          next
            case h: (Inr securityHeaders)
            show ?thesis
            proof (cases "map_of block ''location''")
              case None
              with PBlock Some c1 s c2 h assms(2) l2 show ?thesis
                by (auto simp: parseServer_def Let_def split: if_splits)
            next
              case loc: (Some loc)
              with built have built_loc: "built_value loc" by (auto dest: built_map_of)
              have "map_locations (case loc of PList locs \<Rightarrow> locs | w \<Rightarrow> [w]) = Inl TypeError"
                using built_loc by (cases loc) (simp_all add: map_locations_built parseLocation_built)
              with PBlock Some c1 s c2 h loc assms(2) show ?thesis
                by (cases loc) (simp_all add: parseServer_def Let_def)
            qed
          qed
        qed
      qed
    qed
  qed
qed (use assms(2) in \<open>auto simp: parseServer_def empty_config_def\<close>)

lemma map_servers_built:
  "built_values servers \<Longrightarrow> map_servers servers = Inr configs \<Longrightarrow>
   list_all (\<lambda>config. x_locations config = None) configs"
proof (induction servers arbitrary: configs)
  case Nil
  then show ?case by auto
next
  case (Cons server servers)
  then show ?case
    by (auto split: sum.splits dest: parseServer_built)
qed

lemma convert_without_locations:
  assumes "convert nginxConfig = Inr r"
  shows "list_all (\<lambda>config. x_locations config = None) (configs_of r)"
proof (cases "map_of (parse_blocks nginxConfig) ''server''")
  case None
  with assms show ?thesis
    by (auto simp: convert_def configs_of_def empty_config_def)
next
  case (Some servers)
  have "built_block (parse_blocks nginxConfig)" by (rule parse_blocks_built)
  with Some have built: "built_value servers" by (auto dest: built_map_of)
  then have vals: "built_values (case servers of PList xs \<Rightarrow> xs | w \<Rightarrow> [w])"
    by (cases servers) simp_all
  from assms Some obtain configs where
    run: "map_servers (case servers of PList xs \<Rightarrow> xs | w \<Rightarrow> [w]) = Inr configs"
    and r: "r = (case configs of [c] \<Rightarrow> Single c | cs \<Rightarrow> Multiple cs)"
    by (auto simp: convert_def split: sum.splits list.splits)
  from vals run have "list_all (\<lambda>config. x_locations config = None) configs"
    by (rule map_servers_built)
  with r show ?thesis
    by (auto simp: configs_of_def split: list.splits)
qed

text \<open>
  Given a path rule by hand, \<open>parseLocation\<close> keeps a directive that no earlier test
  claims only when it begins with \<open>expires\<close>, \<open>add_header\<close> or \<open>access_log\<close>; any
  other unclaimed directive leaves the rule as it was. What is in the passthrough list of
  a rule is in the location block generated from it, verbatim, after eight spaces and
  before \<open>;\<close> and a line break.
\<close>

lemma passthrough_added:
  "passthrough_name d \<Longrightarrow> \<not> recognized d \<Longrightarrow> d \<in> set (passthrough (location_directive loc d))"
  by (simp add: location_directive_def passthrough_def or_new_def Let_def recognized_def)

lemma unrecognized_dropped:
  "\<not> passthrough_name d \<Longrightarrow> \<not> recognized d \<Longrightarrow> location_directive loc d = loc"
  by (simp add: location_directive_def recognized_def Let_def)

lemma join_nil: "join [] xs = concat xs"
proof (induction xs)
  case Nil
  show ?case by simp
next
  case (Cons x xs)
  then show ?case by (cases xs) simp_all
qed

lemma extra_line_emitted:
  "s \<in> set (passthrough loc) \<Longrightarrow> sublist (''        '' @ s @ '';'' @ [nl]) (location_block loc)"
proof -
  assume "s \<in> set (passthrough loc)"
  then obtain es where es: "extraDirectives loc = Some es" and mem: "s \<in> set es"
    by (cases "extraDirectives loc") (auto simp: passthrough_def)
  from mem obtain pre post where "es = pre @ s # post" by (meson split_list)
  then have "extra_lines loc =
      concat (map (\<lambda>d. ''        '' @ d @ '';'' @ [nl]) pre)
      @ (''        '' @ s @ '';'' @ [nl])
      @ concat (map (\<lambda>d. ''        '' @ d @ '';'' @ [nl]) post)"
    using es by (simp add: extra_lines_def join_nil)
  then have "location_block loc =
      (''    location '' @ loc_path loc @ '' {'' @ [nl]
       @ proxy_lines loc @ websocket_lines loc @ static_lines loc @ php_lines loc
       @ cache_lines loc @ cors_lines loc @ rate_limit_lines loc
       @ concat (map (\<lambda>d. ''        '' @ d @ '';'' @ [nl]) pre))
      @ (''        '' @ s @ '';'' @ [nl])
      @ (concat (map (\<lambda>d. ''        '' @ d @ '';'' @ [nl]) post) @ ''    }'' @ [nl])"
    by (simp add: location_block_def Let_def)
  then show ?thesis
    unfolding sublist_def by blast
qed

text \<open>
  C8. A location block with the directive \<open>proxy_read_timeout 90s\<close>, which is outside
  the recognized vocabulary, should be extracted with that directive in the passthrough
  list of its path rule. From the text
  \<open>server { listen 80; location /api { proxy_read_timeout 90s; } }\<close> the block parser
  builds a server block that holds the location under the key \<open>location /api\<close>;
  \<open>parseServer\<close> looks for the key \<open>location\<close>, and \<open>convert\<close> returns a
  configuration with the port and no location at all. The same happens to the block
  \<open>location / { unknown_directive value; }\<close> of the documentation. When the block is
  named \<open>location\<close> alone, \<open>convert\<close> fails with a \<open>TypeError\<close>. And
  \<open>parseLocation\<close>, given the path and the directive by hand, returns a path rule
  without any passthrough directive.
\<close>

theorem C8_unknown_directive_lost:
  "parse_blocks ''server { listen 80; location /api { proxy_read_timeout 90s; } }''
     = [(''server'', PBlock [(''_directives'', PStr ''listen 80''),
          (''location /api'', PBlock [(''_directives'', PStr ''proxy_read_timeout 90s'')])])]
   \<and> convert ''server { listen 80; location /api { proxy_read_timeout 90s; } }''
     = Inr (Single (empty_config\<lparr>x_port := Some (Num 80)\<rparr>))
   \<and> x_locations (empty_config\<lparr>x_port := Some (Num 80)\<rparr>) = None
   \<and> convert ''server { listen 80; location / { unknown_directive value; } }''
     = Inr (Single (empty_config\<lparr>x_port := Some (Num 80)\<rparr>))
   \<and> convert ''server { listen 80; location { proxy_read_timeout 90s; } }'' = Inl TypeError
   \<and> parseLocation (PBlock [(''location'', PStr ''/api''),
                          (''_directives'', PStr ''proxy_read_timeout 90s'')])
     = Inr (empty_location ''/api'')
   \<and> passthrough (empty_location ''/api'') = []"
  by code_simp

section \<open>Generation\<close>

lemma upstream_server_line: "upstream_server acc server = acc @ spec_server_line server"
  by (simp add: upstream_server_def spec_server_line_def clause_num_def clause_str_def
      truthy_num_def truthy_str_def tpl_num_def tpl_str_def Let_def split: option.splits)

lemma foldl_upstream_server:
  "foldl upstream_server acc servers = acc @ concat (map spec_server_line servers)"
  by (induction servers arbitrary: acc) (simp_all add: upstream_server_line)

lemma upstream_entry_block: "upstream_entry acc pool = acc @ spec_upstream_block pool"
  by (simp add: upstream_entry_def spec_upstream_block_def foldl_upstream_server)

lemma foldl_upstream_entry:
  "foldl upstream_entry acc pools = acc @ concat (map spec_upstream_block pools)"
  by (induction pools arbitrary: acc) (simp_all add: upstream_entry_block)

lemma foldl_push_microservice:
  "foldl push_microservice config routes =
     config\<lparr>locations := locations config @ map microservice_location routes\<rparr>"
  by (induction routes arbitrary: config) (simp_all add: push_microservice_def)

lemma server_block_locations: "server_block (config\<lparr>locations := ls\<rparr>) t = server_block config t"
  by (simp add: server_block_def gzip_lines_def Let_def)

lemma schema_after: "snd (generateNginxConfig config) = config\<lparr>locations := all_locations config\<rparr>"
  by (simp add: generateNginxConfig_def all_locations_def foldl_push_microservice Let_def
      split: option.splits)

lemma location_block_spec: "location_block = spec_location_block"
  by (rule ext) (simp add: location_block_def spec_location_block_def Let_def)

lemma server_block_spec:
  "server_block config (join [nl] (map location_block locs)) = spec_server_block config locs"
  by (simp add: server_block_def spec_server_block_def location_block_spec Let_def
      split: option.splits)

lemma redirect_guard:
  "(case ssl config of None \<Rightarrow> False | Some s \<Rightarrow> truthy_bool (forceRedirect s))
     = redirect_requested config"
  by (auto simp: redirect_requested_def truthy_bool_def split: option.splits)

text \<open>
  C9. For every schema the generated text is, in this order: one upstream block per named
  pool (its server lines in list order, each with the \<open>weight=\<close>, \<open>max_fails=\<close> and
  \<open>fail_timeout=\<close> clauses only where the field is present), then the redirect server
  block exactly when SSL forced redirect is requested, then one main server block that
  holds the location blocks in schema order (the locations of the schema, then one per
  microservice route). The right-hand side is written from the claim: the condition, the
  redirect block and the frames of the server and location blocks are spelled out there,
  not taken from the generator.
\<close>

theorem C9_generation_order:
  "fst (generateNginxConfig config) =
     concat (map spec_upstream_block (case upstreams config of None \<Rightarrow> [] | Some pools \<Rightarrow> pools))
     @ (if redirect_requested config then spec_redirect_block (serverName config) else [])
     @ spec_server_block config (all_locations config)
   \<and> clause_num label None = [] \<and> clause_str label None = []"
proof (intro conjI)
  have "fst (generateNginxConfig config) =
      concat (map spec_upstream_block (case upstreams config of None \<Rightarrow> [] | Some pools \<Rightarrow> pools))
      @ (if (case ssl config of None \<Rightarrow> False | Some s \<Rightarrow> truthy_bool (forceRedirect s))
         then spec_redirect_block (serverName config) else [])
      @ server_block config (join [nl] (map location_block (all_locations config)))"
    by (simp add: generateNginxConfig_def all_locations_def foldl_push_microservice Let_def
        foldl_upstream_entry server_block_locations spec_redirect_block_def
        split: option.splits)
  then show "fst (generateNginxConfig config) =
     concat (map spec_upstream_block (case upstreams config of None \<Rightarrow> [] | Some pools \<Rightarrow> pools))
     @ (if redirect_requested config then spec_redirect_block (serverName config) else [])
     @ spec_server_block config (all_locations config)"
    by (simp only: redirect_guard server_block_spec)
  show "clause_num label None = []"
    by (simp add: clause_num_def)
  show "clause_str label None = []"
    by (simp add: clause_str_def)
qed

theorem C9_generation_order_witness:
  "redirect_requested example_schema
   \<and> fst (generateNginxConfig example_schema) =
       ''upstream backend {'' @ [nl]
       @ ''    server 10.0.0.1:8080 weight=3;'' @ [nl]
       @ ''    server 10.0.0.2:8080;'' @ [nl]
       @ ''}'' @ [nl, nl]
       @ ''server {'' @ [nl]
       @ ''    listen 80;'' @ [nl]
       @ ''    server_name api.example.com;'' @ [nl]
       @ ''    return 301 https://$server_name$request_uri;'' @ [nl]
       @ ''}'' @ [nl, nl]
       @ ''server {'' @ [nl]
       @ ''    listen 443 ssl;'' @ [nl]
       @ ''    server_name api.example.com;'' @ [nl]
       @ [nl]
       @ ''    ssl_certificate /etc/ssl/api.crt;'' @ [nl]
       @ ''    ssl_certificate_key /etc/ssl/api.key;'' @ [nl, nl]
       @ ''    location / {'' @ [nl]
       @ ''        root /var/www;'' @ [nl]
       @ ''    }'' @ [nl]
       @ [nl]
       @ ''    location /x {'' @ [nl]
       @ ''        expires 30d;'' @ [nl]
       @ ''    }'' @ [nl]
       @ ''}''
   \<and> \<not> redirect_requested unforced_schema
   \<and> fst (generateNginxConfig unforced_schema) =
       ''upstream backend {'' @ [nl]
       @ ''    server 10.0.0.1:8080 weight=3;'' @ [nl]
       @ ''    server 10.0.0.2:8080;'' @ [nl]
       @ ''}'' @ [nl, nl]
       @ ''server {'' @ [nl]
       @ ''    listen 443 ssl;'' @ [nl]
       @ ''    server_name api.example.com;'' @ [nl]
       @ [nl]
       @ ''    ssl_certificate /etc/ssl/api.crt;'' @ [nl]
       @ ''    ssl_certificate_key /etc/ssl/api.key;'' @ [nl, nl]
       @ ''    location / {'' @ [nl]
       @ ''        root /var/www;'' @ [nl]
       @ ''    }'' @ [nl]
       @ [nl]
       @ ''    location /x {'' @ [nl]
       @ ''        expires 30d;'' @ [nl]
       @ ''    }'' @ [nl]
       @ ''}''
   \<and> \<not> redirect_requested route_schema
   \<and> fst (generateNginxConfig route_schema) =
       ''server {'' @ [nl]
       @ ''    listen 80;'' @ [nl]
       @ ''    server_name api.example.com;'' @ [nl]
       @ [nl, nl]
       @ ''    location /auth {'' @ [nl]
       @ ''        proxy_pass http://auth_service;'' @ [nl]
       @ ''        proxy_set_header Host $host;'' @ [nl]
       @ ''        proxy_set_header X-Real-IP $remote_addr;'' @ [nl]
       @ ''        proxy_set_header X-Forwarded-For $proxy_add_x_forwarded_for;'' @ [nl]
       @ ''        proxy_set_header X-Forwarded-Proto $scheme;'' @ [nl]
       @ ''    }'' @ [nl]
       @ ''}''"
proof -
  have forced: "redirect_requested example_schema"
    by code_simp
  have unforced: "\<not> redirect_requested unforced_schema"
    by code_simp
  have no_ssl: "\<not> redirect_requested route_schema"
    by code_simp
  have "concat (map spec_upstream_block
            (case upstreams example_schema of None \<Rightarrow> [] | Some pools \<Rightarrow> pools))
        @ (if redirect_requested example_schema then spec_redirect_block (serverName example_schema) else [])
        @ spec_server_block example_schema (all_locations example_schema)
      =
       ''upstream backend {'' @ [nl]
       @ ''    server 10.0.0.1:8080 weight=3;'' @ [nl]
       @ ''    server 10.0.0.2:8080;'' @ [nl]
       @ ''}'' @ [nl, nl]
       @ ''server {'' @ [nl]
       @ ''    listen 80;'' @ [nl]
       @ ''    server_name api.example.com;'' @ [nl]
       @ ''    return 301 https://$server_name$request_uri;'' @ [nl]
       @ ''}'' @ [nl, nl]
       @ ''server {'' @ [nl]
       @ ''    listen 443 ssl;'' @ [nl]
       @ ''    server_name api.example.com;'' @ [nl]
       @ [nl]
       @ ''    ssl_certificate /etc/ssl/api.crt;'' @ [nl]
       @ ''    ssl_certificate_key /etc/ssl/api.key;'' @ [nl, nl]
       @ ''    location / {'' @ [nl]
       @ ''        root /var/www;'' @ [nl]
       @ ''    }'' @ [nl]
       @ [nl]
       @ ''    location /x {'' @ [nl]
       @ ''        expires 30d;'' @ [nl]
       @ ''    }'' @ [nl]
       @ ''}''"
    by code_simp
  with C9_generation_order [of example_schema]
  have first: "fst (generateNginxConfig example_schema) =
       ''upstream backend {'' @ [nl]
       @ ''    server 10.0.0.1:8080 weight=3;'' @ [nl]
       @ ''    server 10.0.0.2:8080;'' @ [nl]
       @ ''}'' @ [nl, nl]
       @ ''server {'' @ [nl]
       @ ''    listen 80;'' @ [nl]
       @ ''    server_name api.example.com;'' @ [nl]
       @ ''    return 301 https://$server_name$request_uri;'' @ [nl]
       @ ''}'' @ [nl, nl]
       @ ''server {'' @ [nl]
       @ ''    listen 443 ssl;'' @ [nl]
       @ ''    server_name api.example.com;'' @ [nl]
       @ [nl]
       @ ''    ssl_certificate /etc/ssl/api.crt;'' @ [nl]
       @ ''    ssl_certificate_key /etc/ssl/api.key;'' @ [nl, nl]
       @ ''    location / {'' @ [nl]
       @ ''        root /var/www;'' @ [nl]
       @ ''    }'' @ [nl]
       @ [nl]
       @ ''    location /x {'' @ [nl]
       @ ''        expires 30d;'' @ [nl]
       @ ''    }'' @ [nl]
       @ ''}''"
    by simp
  have "concat (map spec_upstream_block
            (case upstreams unforced_schema of None \<Rightarrow> [] | Some pools \<Rightarrow> pools))
        @ (if redirect_requested unforced_schema then spec_redirect_block (serverName unforced_schema) else [])
        @ spec_server_block unforced_schema (all_locations unforced_schema)
      =
       ''upstream backend {'' @ [nl]
       @ ''    server 10.0.0.1:8080 weight=3;'' @ [nl]
       @ ''    server 10.0.0.2:8080;'' @ [nl]
       @ ''}'' @ [nl, nl]
       @ ''server {'' @ [nl]
       @ ''    listen 443 ssl;'' @ [nl]
       @ ''    server_name api.example.com;'' @ [nl]
       @ [nl]
       @ ''    ssl_certificate /etc/ssl/api.crt;'' @ [nl]
       @ ''    ssl_certificate_key /etc/ssl/api.key;'' @ [nl, nl]
       @ ''    location / {'' @ [nl]
       @ ''        root /var/www;'' @ [nl]
       @ ''    }'' @ [nl]
       @ [nl]
       @ ''    location /x {'' @ [nl]
       @ ''        expires 30d;'' @ [nl]
       @ ''    }'' @ [nl]
       @ ''}''"
    by code_simp
  with C9_generation_order [of unforced_schema]
  have second: "fst (generateNginxConfig unforced_schema) =
       ''upstream backend {'' @ [nl]
       @ ''    server 10.0.0.1:8080 weight=3;'' @ [nl]
       @ ''    server 10.0.0.2:8080;'' @ [nl]
       @ ''}'' @ [nl, nl]
       @ ''server {'' @ [nl]
       @ ''    listen 443 ssl;'' @ [nl]
       @ ''    server_name api.example.com;'' @ [nl]
       @ [nl]
       @ ''    ssl_certificate /etc/ssl/api.crt;'' @ [nl]
       @ ''    ssl_certificate_key /etc/ssl/api.key;'' @ [nl, nl]
       @ ''    location / {'' @ [nl]
       @ ''        root /var/www;'' @ [nl]
       @ ''    }'' @ [nl]
       @ [nl]
       @ ''    location /x {'' @ [nl]
       @ ''        expires 30d;'' @ [nl]
       @ ''    }'' @ [nl]
       @ ''}''"
    by simp
  have "concat (map spec_upstream_block
            (case upstreams route_schema of None \<Rightarrow> [] | Some pools \<Rightarrow> pools))
        @ (if redirect_requested route_schema then spec_redirect_block (serverName route_schema) else [])
        @ spec_server_block route_schema (all_locations route_schema)
      =
       ''server {'' @ [nl]
       @ ''    listen 80;'' @ [nl]
       @ ''    server_name api.example.com;'' @ [nl]
       @ [nl, nl]
       @ ''    location /auth {'' @ [nl]
       @ ''        proxy_pass http://auth_service;'' @ [nl]
       @ ''        proxy_set_header Host $host;'' @ [nl]
       @ ''        proxy_set_header X-Real-IP $remote_addr;'' @ [nl]
       @ ''        proxy_set_header X-Forwarded-For $proxy_add_x_forwarded_for;'' @ [nl]
       @ ''        proxy_set_header X-Forwarded-Proto $scheme;'' @ [nl]
       @ ''    }'' @ [nl]
       @ ''}''"
    by code_simp
  with C9_generation_order [of route_schema]
  have third: "fst (generateNginxConfig route_schema) =
       ''server {'' @ [nl]
       @ ''    listen 80;'' @ [nl]
       @ ''    server_name api.example.com;'' @ [nl]
       @ [nl, nl]
       @ ''    location /auth {'' @ [nl]
       @ ''        proxy_pass http://auth_service;'' @ [nl]
       @ ''        proxy_set_header Host $host;'' @ [nl]
       @ ''        proxy_set_header X-Real-IP $remote_addr;'' @ [nl]
       @ ''        proxy_set_header X-Forwarded-For $proxy_add_x_forwarded_for;'' @ [nl]
       @ ''        proxy_set_header X-Forwarded-Proto $scheme;'' @ [nl]
       @ ''    }'' @ [nl]
       @ ''}''"
    by simp
  show ?thesis
    by (intro conjI) (fact forced first unforced second no_ssl third)+
qed

text \<open>
  C10, as claimed, fails: for a schema with one microservice route and no location, the
  \<open>locations\<close> list of the schema holds one location after the call.
\<close>

theorem C10_locations_grow:
  "locations route_schema = []
   \<and> locations (snd (generateNginxConfig route_schema))
     = [(empty_location ''/auth'')\<lparr>proxyPass := Some ''http://auth_service'',
                                    extraDirectives := Some []\<rparr>]
   \<and> snd (generateNginxConfig route_schema) \<noteq> route_schema"
  by code_simp

text \<open>
  C10, amended. After \<open>generateNginxConfig\<close> returns, every field of the input schema
  other than \<open>locations\<close> is what it was before the call, and \<open>locations\<close> is the list it
  was, followed by one location per microservice route. When the schema has no
  microservice route, all of it is unchanged.
\<close>

theorem C10_schema_after_call:
  "snd (generateNginxConfig config) = config\<lparr>locations := all_locations config\<rparr>
   \<and> all_locations config
     = locations config
       @ map microservice_location (case microservices config of None \<Rightarrow> [] | Some rs \<Rightarrow> rs)
   \<and> ((microservices config = None \<or> microservices config = Some [])
        \<longrightarrow> snd (generateNginxConfig config) = config)"
  by (auto simp add: schema_after all_locations_def)

theorem C10_schema_after_call_witness:
  "microservices example_schema = None
   \<and> snd (generateNginxConfig example_schema) = example_schema"
proof -
  have none: "microservices example_schema = None"
    by (simp add: example_schema_def)
  with C10_schema_after_call [of example_schema] show ?thesis
    by blast
qed

end
